theory Spec2Isabelle
  imports Main
begin

unbundle bit_operations_syntax

section \<open>Request bodies and the values the handlers read from them\<close>

text \<open>
  Both handlers start with \<^verbatim>\<open>JSON.parse(req.body || "{}")\<close> and destructure the
  result. In the handlers below a property of the parsed body is absent
  (\<^verbatim>\<open>undefined\<close>), \<^verbatim>\<open>null\<close> or a string, as the interface of both functions
  types every field. The code does not check that type: what the validation of the
  verification handler does with a number, a boolean or an array is the subject of
  the section on \<open>validateInput\<close>, and the handlers are not followed further on
  such values. Strings are lists of characters; \<^verbatim>\<open>.length\<close> is the length of the
  list (ASCII text has one character per UTF-16 code unit).
\<close>

datatype jsval = JUndefined | JNull | JStr string

text \<open>JavaScript truthiness, as \<^verbatim>\<open>!email\<close> reads it: the empty string is falsy.\<close>

fun truthy :: "jsval \<Rightarrow> bool" where
  "truthy JUndefined = False"
| "truthy JNull = False"
| "truthy (JStr s) = (s \<noteq> [])"

text \<open>The string of a truthy value (only read after the \<open>truthy\<close> check).\<close>

fun str :: "jsval \<Rightarrow> string" where
  "str (JStr s) = s"
| "str JUndefined = []"
| "str JNull = []"

record payload =
  email :: jsval
  otp :: jsval
  newPassword :: jsval

text \<open>
  What \<^verbatim>\<open>JSON.parse\<close> makes of a body text: a syntax error, \<^verbatim>\<open>null\<close>, an object
  (of which only the three properties matter) or another value (a number, a string,
  a boolean, an array), all of whose properties \<open>email\<close>, \<open>otp\<close> and \<open>newPassword\<close>
  are \<^verbatim>\<open>undefined\<close>.
\<close>

datatype json = JsonNull | JsonObject payload | JsonOther

datatype body =
    NoBody        \<comment> \<open>\<^verbatim>\<open>req.body\<close> is falsy: undefined, null or the empty string\<close>
  | Unparsable    \<comment> \<open>a text that \<^verbatim>\<open>JSON.parse\<close> rejects\<close>
  | Parses json   \<comment> \<open>a text that \<^verbatim>\<open>JSON.parse\<close> reads as this value\<close>

datatype error = SyntaxError | TypeError | ServiceError | DecodeError

definition emptyObject :: payload where
  "emptyObject = \<lparr>email = JUndefined, otp = JUndefined, newPassword = JUndefined\<rparr>"

text \<open>\<^verbatim>\<open>JSON.parse(req.body || "{}")\<close>\<close>

definition JSON_parse :: "body \<Rightarrow> error + json" where
  "JSON_parse b =
     (case b of
        NoBody \<Rightarrow> Inr (JsonObject emptyObject)
      | Unparsable \<Rightarrow> Inl SyntaxError
      | Parses j \<Rightarrow> Inr j)"

text \<open>
  \<^verbatim>\<open>const { email, otp, newPassword } = payload\<close>: destructuring \<^verbatim>\<open>null\<close> throws a
  TypeError; a primitive or an array has none of the properties.
\<close>

definition destructure :: "json \<Rightarrow> error + payload" where
  "destructure j =
     (case j of
        JsonNull \<Rightarrow> Inl TypeError
      | JsonObject p \<Rightarrow> Inr p
      | JsonOther \<Rightarrow> Inr emptyObject)"

subsection \<open>The two regular expressions\<close>

definition isDigit :: "char \<Rightarrow> bool" where
  "isDigit c = (c \<in> set ''0123456789'')"

text \<open>\<^verbatim>\<open>/^\d{6}$/.test(otp)\<close>: exactly six ASCII digits and nothing else.\<close>

definition otpRegex_test :: "string \<Rightarrow> bool" where
  "otpRegex_test s = (length s = 6 \<and> list_all isDigit s)"

text \<open>
  \<^verbatim>\<open>\s\<close> on characters below 256: tab, line feed, vertical tab, form feed, carriage
  return, space and the no-break space.
\<close>

definition isSpace :: "char \<Rightarrow> bool" where
  "isSpace c = (of_char c \<in> set [9, 10, 11, 12, 13, 32, 160 :: nat])"

definition plainChar :: "char \<Rightarrow> bool" where
  "plainChar c = (\<not> isSpace c \<and> c \<noteq> CHR ''@'')"

text \<open>
  \<^verbatim>\<open>/^[^\s@]+@[^\s@]+\.[^\s@]+$/.test(email)\<close>: a non-empty run of characters that
  are neither space nor \<open>@\<close>, one \<open>@\<close>, and a second such run that has a dot with at
  least one character on each side of it.
\<close>

definition emailRegex_test :: "string \<Rightarrow> bool" where
  "emailRegex_test s =
     (let local = takeWhile plainChar s; rest = dropWhile plainChar s
      in local \<noteq> [] \<and>
         (case rest of
            [] \<Rightarrow> False
          | c # domain \<Rightarrow>
              c = CHR ''@'' \<and> list_all plainChar domain \<and>
              CHR ''.'' \<in> set (butlast (tl domain))))"

section \<open>The time-based one-time password engine\<close>

text \<open>
  \<^verbatim>\<open>const OTP_EXPIRY_MINUTES = 10; const OTP_STEP_SECONDS = OTP_EXPIRY_MINUTES * 60;\<close>
  and the options both files assign to \<^verbatim>\<open>authenticator.options\<close>.
\<close>

definition OTP_EXPIRY_MINUTES :: nat where
  "OTP_EXPIRY_MINUTES = 10"

definition OTP_STEP_SECONDS :: nat where
  "OTP_STEP_SECONDS = OTP_EXPIRY_MINUTES * 60"

record options =
  digits :: nat
  step :: nat
  window :: nat

definition authenticator_options :: options where
  "authenticator_options = \<lparr>digits = 6, step = OTP_STEP_SECONDS, window = 0\<rparr>"

text \<open>
  Modelled from the spec: the TOTP Engine of section 4.1, which the handlers call as
  \<^verbatim>\<open>authenticator.generate\<close> and \<^verbatim>\<open>authenticator.verify\<close> of the otplib package; the
  package is a dependency and not among the sources. \<open>derive\<close> is an HMAC-based
  one-time password over the counter \<open>floor (timestamp / stepSeconds)\<close>, truncated
  and zero-padded to \<open>digits\<close> decimal digits; \<open>matches\<close> recomputes the code and
  compares; a malformed secret is an error and never yields a code. The two
  cryptographic parts are parameters: \<open>keyDecoder\<close> turns the stored secret into key
  bytes or fails, \<open>createDigest\<close> is the keyed hash of the counter.
\<close>

record crypto =
  keyDecoder :: "string \<Rightarrow> nat list option"
  createDigest :: "nat list \<Rightarrow> int \<Rightarrow> nat list"

text \<open>Timestamps are \<^verbatim>\<open>Date.now()\<close>: milliseconds. \<^verbatim>\<open>Math.floor(epoch / step / 1000)\<close>\<close>

definition totpCounter :: "int \<Rightarrow> nat \<Rightarrow> int" where
  "totpCounter epoch stp = epoch div (int stp * 1000)"

fun digitChar :: "nat \<Rightarrow> char" where
  "digitChar n = ''0123456789'' ! (n mod 10)"

text \<open>\<^verbatim>\<open>String(token)\<close> of a non-negative integer: its decimal digits.\<close>

fun decimal :: "nat \<Rightarrow> string" where
  "decimal n = (if n < 10 then [digitChar n] else decimal (n div 10) @ [digitChar n])"

declare decimal.simps [simp del]

definition padStart :: "string \<Rightarrow> nat \<Rightarrow> char \<Rightarrow> string" where
  "padStart s n c = replicate (n - length s) c @ s"

text \<open>A byte of the digest; a read past the end is \<^verbatim>\<open>undefined\<close>, which \<^verbatim>\<open>&\<close> reads as 0.\<close>

definition byteAt :: "nat list \<Rightarrow> nat \<Rightarrow> nat" where
  "byteAt d i = (if i < length d then d ! i else 0)"

text \<open>
  Dynamic truncation: the low four bits of the last byte select four bytes, whose
  31 low bits are the number. The masks \<^verbatim>\<open>& 0x7f\<close>, \<^verbatim>\<open>& 0xff\<close>, the shifts and the
  bitwise or of the disjoint fields are written as arithmetic.
\<close>

definition hotpDigestToToken :: "nat list \<Rightarrow> nat \<Rightarrow> string" where
  "hotpDigestToToken d n =
     (let offset = byteAt d (length d - 1) mod 16;
          binary = (byteAt d offset mod 128) * 2 ^ 24
                 + (byteAt d (offset + 1) mod 256) * 2 ^ 16
                 + (byteAt d (offset + 2) mod 256) * 2 ^ 8
                 + (byteAt d (offset + 3) mod 256);
          token = binary mod 10 ^ n
      in padStart (decimal token) n (CHR ''0''))"

definition totpToken :: "crypto \<Rightarrow> options \<Rightarrow> nat list \<Rightarrow> int \<Rightarrow> string" where
  "totpToken cr opts key epoch =
     hotpDigestToToken (createDigest cr key (totpCounter epoch (step opts))) (digits opts)"

text \<open>\<^verbatim>\<open>/^\d+$/\<close>\<close>

definition isTokenValid :: "string \<Rightarrow> bool" where
  "isTokenValid t = (t \<noteq> [] \<and> list_all isDigit t)"

definition totpCheck :: "crypto \<Rightarrow> options \<Rightarrow> string \<Rightarrow> nat list \<Rightarrow> int \<Rightarrow> bool" where
  "totpCheck cr opts token key epoch =
     (if \<not> isTokenValid token then False else token = totpToken cr opts key epoch)"

text \<open>The epochs of the \<open>n\<close> steps before (\<open>direction = -1\<close>) or after the current one.\<close>

definition totpEpochsInWindow :: "int \<Rightarrow> int \<Rightarrow> int \<Rightarrow> nat \<Rightarrow> int list" where
  "totpEpochsInWindow epoch direction deltaPerEpoch n =
     map (\<lambda>i. epoch + direction * int i * deltaPerEpoch) [1 ..< Suc n]"

text \<open>The position (from 1) of the first epoch at which the token checks, if any.\<close>

fun totpCheckByEpoch :: "crypto \<Rightarrow> options \<Rightarrow> int list \<Rightarrow> string \<Rightarrow> nat list \<Rightarrow> nat option" where
  "totpCheckByEpoch cr opts [] token key = None"
| "totpCheckByEpoch cr opts (e # es) token key =
     (if totpCheck cr opts token key e then Some 1
      else map_option Suc (totpCheckByEpoch cr opts es token key))"

text \<open>
  The distance in steps at which the token checks: 0 now, negative in the past,
  positive in the future, \<open>None\<close> (\<^verbatim>\<open>null\<close>) when it checks nowhere in the window.
\<close>

definition totpCheckWithWindow :: "crypto \<Rightarrow> options \<Rightarrow> string \<Rightarrow> nat list \<Rightarrow> int \<Rightarrow> int option" where
  "totpCheckWithWindow cr opts token key epoch =
     (if totpCheck cr opts token key epoch then Some 0
      else
        let delta = int (step opts) * 1000;
            past = totpEpochsInWindow epoch (- 1) delta (window opts);
            future = totpEpochsInWindow epoch 1 delta (window opts)
        in case totpCheckByEpoch cr opts past token key of
             Some k \<Rightarrow> Some (- int k)
           | None \<Rightarrow> map_option int (totpCheckByEpoch cr opts future token key))"

text \<open>\<^verbatim>\<open>authenticator.generate(secret)\<close> at the time \<open>epoch\<close>.\<close>

definition authenticator_generate :: "crypto \<Rightarrow> options \<Rightarrow> string \<Rightarrow> int \<Rightarrow> error + string" where
  "authenticator_generate cr opts secret epoch =
     (case keyDecoder cr secret of
        None \<Rightarrow> Inl DecodeError
      | Some key \<Rightarrow> Inr (totpToken cr opts key epoch))"

text \<open>\<^verbatim>\<open>authenticator.verify({ token, secret })\<close> at the time \<open>epoch\<close>.\<close>

definition authenticator_verify :: "crypto \<Rightarrow> options \<Rightarrow> string \<Rightarrow> string \<Rightarrow> int \<Rightarrow> error + bool" where
  "authenticator_verify cr opts token secret epoch =
     (case keyDecoder cr secret of
        None \<Rightarrow> Inl DecodeError
      | Some key \<Rightarrow> Inr (totpCheckWithWindow cr opts token key epoch \<noteq> None))"

section \<open>The world outside the handlers\<close>

text \<open>
  Modelled from the spec: the external collaborators of section 6, which the
  handlers reach through the Appwrite SDK and nodemailer (dependencies, not among
  the sources). The user directory is a list of accounts, the users collection maps
  a document id to a document holding the nullable \<open>passwordResetSecret\<close>, the
  Authenticator keeps a password for each user id, and the Notifier's deliveries
  are collected in an outbox. A write that succeeds changes the store it names; a
  call that fails changes nothing.
\<close>

record user =
  uid :: string      \<comment> \<open>\<^verbatim>\<open>user.$id\<close>\<close>
  uemail :: string

record document =
  passwordResetSecret :: "string option"   \<comment> \<open>\<open>None\<close> is \<^verbatim>\<open>null\<close>\<close>

record world =
  accounts :: "user list"
  documents :: "string \<rightharpoonup> document"
  passwords :: "string \<rightharpoonup> string"
  outbox :: "(string \<times> string) list"

text \<open>
  What one invocation meets: the clock, the value \<^verbatim>\<open>authenticator.generateSecret()\<close>
  would draw, and which of the external calls throw.
\<close>

record env =
  now :: int
  freshSecret :: string
  usersListFails :: bool
  listDocumentsFails :: bool
  updateDocumentFails :: bool
  updatePasswordFails :: bool
  sendMailFails :: bool

text \<open>The external calls an invocation made, in order, with their arguments.\<close>

datatype call =
    UsersList string
  | ListDocuments string
  | UpdateDocument string "string option"
  | UpdatePassword string string
  | SendMail string string

text \<open>\<^verbatim>\<open>users.list([sdk.Query.equal("email", [email])])\<close>\<close>

definition users_list :: "env \<Rightarrow> world \<Rightarrow> string \<Rightarrow> error + user list" where
  "users_list e w em =
     (if usersListFails e then Inl ServiceError
      else Inr (filter (\<lambda>u. uemail u = em) (accounts w)))"

text \<open>\<^verbatim>\<open>database.listDocuments(..., [sdk.Query.equal("$id", user.$id)])\<close>\<close>

definition database_listDocuments :: "env \<Rightarrow> world \<Rightarrow> string \<Rightarrow> error + (string \<times> document) list" where
  "database_listDocuments e w i =
     (if listDocumentsFails e then Inl ServiceError
      else Inr (case documents w i of None \<Rightarrow> [] | Some d \<Rightarrow> [(i, d)]))"

text \<open>\<^verbatim>\<open>database.updateDocument(..., userDocument.$id, { passwordResetSecret: v })\<close>\<close>

definition database_updateDocument :: "env \<Rightarrow> world \<Rightarrow> string \<Rightarrow> string option \<Rightarrow> error + world" where
  "database_updateDocument e w i v =
     (if updateDocumentFails e then Inl ServiceError
      else case documents w i of
             None \<Rightarrow> Inl ServiceError
           | Some d \<Rightarrow> Inr (w\<lparr>documents := (documents w)(i \<mapsto> d\<lparr>passwordResetSecret := v\<rparr>)\<rparr>))"

text \<open>\<^verbatim>\<open>users.updatePassword(user.$id, newPassword)\<close>\<close>

definition users_updatePassword :: "env \<Rightarrow> world \<Rightarrow> string \<Rightarrow> string \<Rightarrow> error + world" where
  "users_updatePassword e w i pw =
     (if updatePasswordFails e then Inl ServiceError
      else Inr (w\<lparr>passwords := (passwords w)(i \<mapsto> pw)\<rparr>))"

text \<open>\<^verbatim>\<open>transporter.sendMail({ to: email, ... })\<close>, the mail carrying the code.\<close>

definition sendMail :: "env \<Rightarrow> world \<Rightarrow> string \<Rightarrow> string \<Rightarrow> error + world" where
  "sendMail e w em code =
     (if sendMailFails e then Inl ServiceError
      else Inr (w\<lparr>outbox := outbox w @ [(em, code)]\<rparr>))"

text \<open>\<^verbatim>\<open>function generateSecret() { return authenticator.generateSecret(); }\<close>\<close>

definition generateSecret :: "env \<Rightarrow> string" where
  "generateSecret e = freshSecret e"

text \<open>A stored secret as \<^verbatim>\<open>!secret\<close> reads it: \<^verbatim>\<open>null\<close> and the empty string are falsy.\<close>

definition present :: "string option \<Rightarrow> bool" where
  "present v = (case v of None \<Rightarrow> False | Some s \<Rightarrow> s \<noteq> [])"

section \<open>Responses\<close>

record response =
  success :: bool
  message :: string
  expiresInMinutes :: "nat option"
  status :: nat

text \<open>\<^verbatim>\<open>res.json({ success: false, message }, status)\<close>\<close>

definition failure :: "string \<Rightarrow> nat \<Rightarrow> response" where
  "failure m s = \<lparr>success = False, message = m, expiresInMinutes = None, status = s\<rparr>"

text \<open>What a handler leaves behind: its response, the world after it, the calls it made.\<close>

record outcome =
  resp :: response
  after :: world
  trace :: "call list"

definition finish :: "response \<Rightarrow> world \<Rightarrow> call list \<Rightarrow> outcome" where
  "finish r w cs = \<lparr>resp = r, after = w, trace = cs\<rparr>"

text \<open>The outer \<^verbatim>\<open>catch\<close> of both handlers.\<close>

definition unexpected :: response where
  "unexpected = failure ''An unexpected error occurred. Please try again.'' 500"

section \<open>The issuance handler: \<^verbatim>\<open>send_otp/index.js\<close>\<close>

text \<open>
  From \<^verbatim>\<open>authenticator.generate(secret)\<close> to the response. A throw of the engine is
  caught by the outer \<^verbatim>\<open>catch\<close>; a throw of the mailer by the inner one.
\<close>

definition deliver :: "crypto \<Rightarrow> env \<Rightarrow> world \<Rightarrow> call list \<Rightarrow> string \<Rightarrow> string \<Rightarrow> outcome" where
  "deliver cr e w cs em secret =
     (case authenticator_generate cr authenticator_options secret (now e) of
        Inl _ \<Rightarrow> finish unexpected w cs
      | Inr code \<Rightarrow>
          (case sendMail e w em code of
             Inl _ \<Rightarrow>
               finish (failure ''Failed to send OTP email. Please try again.'' 500) w
                 (cs @ [SendMail em code])
           | Inr w' \<Rightarrow>
               finish
                 \<lparr>success = True,
                  message = ''OTP sent to '' @ em @ ''. Please check your inbox.'',
                  expiresInMinutes = Some OTP_EXPIRY_MINUTES,
                  status = 200\<rparr>
                 w' (cs @ [SendMail em code])))"

definition send_otp :: "crypto \<Rightarrow> env \<Rightarrow> world \<Rightarrow> body \<Rightarrow> outcome" where
  "send_otp cr e w b =
     (case JSON_parse b of
        Inl _ \<Rightarrow> finish unexpected w []
      | Inr j \<Rightarrow>
     (case destructure j of
        Inl _ \<Rightarrow> finish unexpected w []
      | Inr p \<Rightarrow>
     if \<not> truthy (email p) then finish (failure ''Email is required'' 400) w []
     else if \<not> emailRegex_test (str (email p)) then
       finish (failure ''Invalid email format'' 400) w []
     else
     let em = str (email p) in
     (case users_list e w em of
        Inl _ \<Rightarrow> finish (failure ''Error verifying email address'' 500) w [UsersList em]
      | Inr [] \<Rightarrow>
          finish (failure ''No account found with this email address'' 404) w [UsersList em]
      | Inr (u # _) \<Rightarrow>
     let cs = [UsersList em, ListDocuments (uid u)] in
     (case database_listDocuments e w (uid u) of
        Inl _ \<Rightarrow> finish (failure ''Error accessing user profile'' 500) w cs
      | Inr [] \<Rightarrow> finish (failure ''User profile not found'' 404) w cs
      | Inr ((i, d) # _) \<Rightarrow>
     if \<not> present (passwordResetSecret d) then
       let secret = generateSecret e in
       (case database_updateDocument e w i (Some secret) of
          Inl _ \<Rightarrow>
            finish (failure ''Failed to generate OTP. Please try again.'' 500) w
              (cs @ [UpdateDocument i (Some secret)])
        | Inr w' \<Rightarrow> deliver cr e w' (cs @ [UpdateDocument i (Some secret)]) em secret)
     else deliver cr e w cs em (the (passwordResetSecret d))))))"

section \<open>The verification handler: \<^verbatim>\<open>verify_otp/index.js\<close>\<close>

text \<open>
  From \<^verbatim>\<open>users.updatePassword\<close> to the response: a failed password update ends the
  request; a failed removal of the secret is only logged.
\<close>

definition passwordReset :: response where
  "passwordReset =
     \<lparr>success = True,
      message = ''Password reset successful! You can now log in with your new password.'',
      expiresInMinutes = None,
      status = 200\<rparr>"

definition resetPassword :: "env \<Rightarrow> world \<Rightarrow> call list \<Rightarrow> string \<Rightarrow> string \<Rightarrow> string \<Rightarrow> outcome" where
  "resetPassword e w cs u i pw =
     (case users_updatePassword e w u pw of
        Inl _ \<Rightarrow>
          finish (failure ''Failed to update password. Please try again.'' 500) w
            (cs @ [UpdatePassword u pw])
      | Inr w1 \<Rightarrow>
          (case database_updateDocument e w1 i None of
             Inl _ \<Rightarrow> finish passwordReset w1 (cs @ [UpdatePassword u pw, UpdateDocument i None])
           | Inr w2 \<Rightarrow> finish passwordReset w2 (cs @ [UpdatePassword u pw, UpdateDocument i None])))"

definition verify_otp :: "crypto \<Rightarrow> env \<Rightarrow> world \<Rightarrow> body \<Rightarrow> outcome" where
  "verify_otp cr e w b =
     (case JSON_parse b of
        Inl _ \<Rightarrow> finish unexpected w []
      | Inr j \<Rightarrow>
     (case destructure j of
        Inl _ \<Rightarrow> finish unexpected w []
      | Inr p \<Rightarrow>
     if \<not> truthy (email p) \<or> \<not> truthy (otp p) \<or> \<not> truthy (newPassword p) then
       finish (failure ''Email, OTP, and new password are required'' 400) w []
     else if \<not> otpRegex_test (str (otp p)) then
       finish (failure ''Invalid OTP format. OTP must be 6 digits.'' 400) w []
     else if length (str (newPassword p)) < 8 then
       finish (failure ''Password must be at least 8 characters long'' 400) w []
     else
     let em = str (email p) in
     (case users_list e w em of
        Inl _ \<Rightarrow> finish (failure ''Error verifying email address'' 500) w [UsersList em]
      | Inr [] \<Rightarrow>
          finish (failure ''No account found with this email address'' 404) w [UsersList em]
      | Inr (u # _) \<Rightarrow>
     let cs = [UsersList em, ListDocuments (uid u)] in
     (case database_listDocuments e w (uid u) of
        Inl _ \<Rightarrow> finish (failure ''Error accessing user profile'' 500) w cs
      | Inr [] \<Rightarrow> finish (failure ''User profile not found'' 404) w cs
      | Inr ((i, d) # _) \<Rightarrow>
     if \<not> present (passwordResetSecret d) then
       finish (failure ''No OTP request found. Please request a new OTP.'' 400) w cs
     else
     (case authenticator_verify cr authenticator_options (str (otp p))
             (the (passwordResetSecret d)) (now e) of
        Inl _ \<Rightarrow> finish (failure ''Invalid OTP or OTP has expired'' 400) w cs
      | Inr isValid \<Rightarrow>
     if \<not> isValid then
       finish (failure ''Invalid OTP or OTP has expired. Please request a new OTP.'' 400) w cs
     else resetPassword e w cs (uid u) i (str (newPassword p)))))))"

section \<open>The validation on values of any JSON type\<close>

text \<open>
  \<^verbatim>\<open>JSON.parse\<close> gives a property any JSON value, and lines 35 to 63 of the
  verification handler apply \<^verbatim>\<open>!\<close>, \<^verbatim>\<open>RegExp.test\<close> and \<^verbatim>\<open>.length < 8\<close> to
  whatever they get. This section follows those lines on the values themselves. A
  number is taken with an integer value; an object is left out, the value of its
  \<^verbatim>\<open>.length\<close> being that of a property it may or may not hold.
\<close>

datatype jvalue =
    VUndefined | VNull | VBool bool | VNum int | VStr string | VArr "jvalue list"

text \<open>The string field of the handlers as such a value.\<close>

fun widen :: "jsval \<Rightarrow> jvalue" where
  "widen JUndefined = VUndefined"
| "widen JNull = VNull"
| "widen (JStr s) = VStr s"

text \<open>\<^verbatim>\<open>!v\<close> is false on: zero, \<^verbatim>\<open>false\<close>, the empty string, null and undefined.\<close>

fun truthyJ :: "jvalue \<Rightarrow> bool" where
  "truthyJ VUndefined = False"
| "truthyJ VNull = False"
| "truthyJ (VBool b) = b"
| "truthyJ (VNum n) = (n \<noteq> 0)"
| "truthyJ (VStr s) = (s \<noteq> [])"
| "truthyJ (VArr xs) = True"

text \<open>
  The string \<^verbatim>\<open>RegExp.test\<close> makes of its argument. An array is its elements joined
  by commas, with the empty string for an element that is null or undefined.
\<close>

fun joinComma :: "string list \<Rightarrow> string" where
  "joinComma [] = []"
| "joinComma [s] = s"
| "joinComma (s # t # ss) = s @ '','' @ joinComma (t # ss)"

fun toStringJ :: "jvalue \<Rightarrow> string" where
  "toStringJ VUndefined = ''undefined''"
| "toStringJ VNull = ''null''"
| "toStringJ (VBool b) = (if b then ''true'' else ''false'')"
| "toStringJ (VNum n) = (if n < 0 then CHR ''-'' # decimal (nat (- n)) else decimal (nat n))"
| "toStringJ (VStr s) = s"
| "toStringJ (VArr xs) =
     joinComma (map (\<lambda>x. if x = VNull \<or> x = VUndefined then [] else toStringJ x) xs)"

text \<open>
  \<^verbatim>\<open>v.length\<close> of a truthy value: a string and an array have one, a number and a
  boolean have none (\<^verbatim>\<open>undefined\<close>).
\<close>

fun lengthJ :: "jvalue \<Rightarrow> nat option" where
  "lengthJ (VStr s) = Some (length s)"
| "lengthJ (VArr xs) = Some (length xs)"
| "lengthJ _ = None"

text \<open>
  Lines 35 to 63: the answer that ends the request, or \<open>None\<close> when the handler goes
  on to the user lookup. \<^verbatim>\<open>undefined < 8\<close> is false.
\<close>

definition validateInput :: "jvalue \<Rightarrow> jvalue \<Rightarrow> jvalue \<Rightarrow> response option" where
  "validateInput em ot pw =
     (if \<not> truthyJ em \<or> \<not> truthyJ ot \<or> \<not> truthyJ pw then
        Some (failure ''Email, OTP, and new password are required'' 400)
      else if \<not> otpRegex_test (toStringJ ot) then
        Some (failure ''Invalid OTP format. OTP must be 6 digits.'' 400)
      else if (case lengthJ pw of None \<Rightarrow> False | Some n \<Rightarrow> n < 8) then
        Some (failure ''Password must be at least 8 characters long'' 400)
      else None)"

section \<open>The engine's cryptography: base32 keys and HMAC-SHA-1\<close>

text \<open>
  Modelled from the spec: the keyed hash and the secret's encoding, which section 4
  names only as "HMAC-based one-time-password" and "encoded for storage/transport
  (e.g., base32)" and which otplib (not among the sources) provides. They are given
  here as otplib's authenticator computes them: the secret is read by its base32
  decoder, the digest is HMAC-SHA-1 (RFC 2104, RFC 3174) of the counter as eight
  big-endian bytes (RFC 4226). The general theorems below hold for every \<open>crypto\<close>;
  this instance makes the concrete scenarios computable.
\<close>

subsection \<open>SHA-1\<close>

text \<open>Addition of 32-bit words: the sum is cut to its low 32 bits.\<close>

definition add32 :: "int \<Rightarrow> int \<Rightarrow> int" where
  "add32 x y = (x + y) AND 0xFFFFFFFF"

text \<open>Rotation to the left of a 32-bit word, \<open>0 < n < 32\<close>.\<close>

definition rotl32 :: "nat \<Rightarrow> int \<Rightarrow> int" where
  "rotl32 n x = (push_bit n x AND 0xFFFFFFFF) + drop_bit (32 - n) x"

definition not32 :: "int \<Rightarrow> int" where
  "not32 x = 0xFFFFFFFF - x"

text \<open>The logical function and the constant of round \<open>t\<close>.\<close>

definition sha1_f :: "nat \<Rightarrow> int \<Rightarrow> int \<Rightarrow> int \<Rightarrow> int" where
  "sha1_f t b c d =
     (if t < 20 then (b AND c) OR (not32 b AND d)
      else if t < 40 then b XOR c XOR d
      else if t < 60 then (b AND c) OR (b AND d) OR (c AND d)
      else b XOR c XOR d)"

definition sha1_K :: "nat \<Rightarrow> int" where
  "sha1_K t =
     (if t < 20 then 0x5A827999 else if t < 40 then 0x6ED9EBA1
      else if t < 60 then 0x8F1BBCDC else 0xCA62C1D6)"

text \<open>
  The eighty rounds over a window of the sixteen latest words of the message
  schedule: \<open>ws ! 0\<close> is the word of round \<open>t\<close>, and the word sixteen rounds ahead is
  appended.
\<close>

function rounds :: "nat \<Rightarrow> int list \<Rightarrow> int \<times> int \<times> int \<times> int \<times> int \<Rightarrow> int \<times> int \<times> int \<times> int \<times> int" where
  "rounds t ws (a, b, c, d, e) =
     (if 80 \<le> t then (a, b, c, d, e)
      else rounds (t + 1)
             (tl ws @ [rotl32 1 (ws ! 13 XOR ws ! 8 XOR ws ! 2 XOR ws ! 0)])
             ((rotl32 5 a + sha1_f t b c d + e + sha1_K t + ws ! 0) AND 0xFFFFFFFF,
              a, rotl32 30 b, c, d))"
  by pat_completeness auto
termination
  by (relation "measure (\<lambda>(t, ws, s). 80 - t)") auto

declare rounds.simps [simp del]

fun words_of_block :: "nat list \<Rightarrow> int list" where
  "words_of_block (a # b # c # d # rest) =
     (((int a * 256 + int b) * 256 + int c) * 256 + int d) # words_of_block rest"
| "words_of_block _ = []"

definition compress :: "int \<times> int \<times> int \<times> int \<times> int \<Rightarrow> nat list \<Rightarrow> int \<times> int \<times> int \<times> int \<times> int" where
  "compress h block =
     (case h of (h0, h1, h2, h3, h4) \<Rightarrow>
        (case rounds 0 (words_of_block block) h of
           (a, b, c, d, e) \<Rightarrow> (add32 h0 a, add32 h1 b, add32 h2 c, add32 h3 d, add32 h4 e)))"

function blocks :: "int \<times> int \<times> int \<times> int \<times> int \<Rightarrow> nat list \<Rightarrow> int \<times> int \<times> int \<times> int \<times> int" where
  "blocks h bs = (if bs = [] then h else blocks (compress h (take 64 bs)) (drop 64 bs))"
  by pat_completeness auto
termination
  by (relation "measure (\<lambda>(h, bs). length bs)") auto

declare blocks.simps [simp del]

definition be4 :: "nat \<Rightarrow> nat list" where
  "be4 x = [x div 16777216 mod 256, x div 65536 mod 256, x div 256 mod 256, x mod 256]"

definition be8 :: "nat \<Rightarrow> nat list" where
  "be8 x = be4 (x div 4294967296) @ be4 (x mod 4294967296)"

function zeros :: "nat \<Rightarrow> nat list" where
  "zeros n = (if n = 0 then [] else 0 # zeros (n - 1))"
  by pat_completeness auto
termination
  by (relation "measure id") auto

declare zeros.simps [simp del]

definition sha1_pad :: "nat list \<Rightarrow> nat list" where
  "sha1_pad m = m @ [128] @ zeros ((119 - length m mod 64) mod 64) @ be8 (8 * length m)"

definition sha1_init :: "int \<times> int \<times> int \<times> int \<times> int" where
  "sha1_init = (0x67452301, 0xEFCDAB89, 0x98BADCFE, 0x10325476, 0xC3D2E1F0)"

definition sha1 :: "nat list \<Rightarrow> nat list" where
  "sha1 m =
     (case blocks sha1_init (sha1_pad m) of
        (a, b, c, d, e) \<Rightarrow> be4 (nat a) @ be4 (nat b) @ be4 (nat c) @ be4 (nat d) @ be4 (nat e))"

subsection \<open>HMAC and the key decoder\<close>

definition hmacSha1 :: "nat list \<Rightarrow> nat list \<Rightarrow> nat list" where
  "hmacSha1 key msg =
     (let k = (if 64 < length key then sha1 key else key);
          k' = k @ zeros (64 - length k)
      in sha1 (map (\<lambda>x. x XOR 0x5c) k' @ sha1 (map (\<lambda>x. x XOR 0x36) k' @ msg)))"

text \<open>
  The decoder otplib uses for the secret, byte by byte over the bytes of the text in
  UTF-8, which are the characters of the \<open>string\<close> here. A byte of 128 or more
  throws. \<open>=\<close> ends the input. Every other byte is read as a five-bit digit: \<open>A\<close> to
  \<open>Z\<close> and \<open>a\<close> to \<open>z\<close> as 0 to 25, \<open>2\<close> to \<open>7\<close> as 26 to 31; a byte below \<open>0\<close> reads
  as 0 and any other one as 255, so that text which is not base32 is decoded to some
  bytes rather than refused.
\<close>

definition base32Digit :: "nat \<Rightarrow> nat" where
  "base32Digit b =
     (if b < 48 then 0
      else if 50 \<le> b \<and> b \<le> 55 then b - 24
      else if 65 \<le> b \<and> b \<le> 90 then b - 65
      else if 97 \<le> b \<and> b \<le> 122 then b - 97
      else 255)"

text \<open>
  \<open>shiftIndex\<close> counts the bits of the current output byte that are filled,
  \<open>plain\<close> (the decoder's \<^verbatim>\<open>plainChar\<close>) holds them; a byte is given out when it is
  full, and bits left at the end are dropped.
\<close>

fun base32Bytes :: "nat list \<Rightarrow> nat \<Rightarrow> nat \<Rightarrow> nat list option" where
  "base32Bytes [] shiftIndex plain = Some []"
| "base32Bytes (b # bs) shiftIndex plain =
     (if b = 61 then Some []
      else if 128 \<le> b then None
      else if shiftIndex \<le> 3 then
        (if (shiftIndex + 5) mod 8 = 0 then
           map_option (\<lambda>out. ((plain OR base32Digit b) AND 255) # out)
             (base32Bytes bs 0 0)
         else
           base32Bytes bs ((shiftIndex + 5) mod 8)
             (plain OR (255 AND push_bit (8 - (shiftIndex + 5) mod 8) (base32Digit b))))
      else
        map_option
          (\<lambda>out. ((plain OR (255 AND drop_bit ((shiftIndex + 5) mod 8) (base32Digit b)))
                    AND 255) # out)
          (base32Bytes bs ((shiftIndex + 5) mod 8)
             (255 AND push_bit (8 - (shiftIndex + 5) mod 8) (base32Digit b))))"

definition base32Decode :: "string \<Rightarrow> nat list option" where
  "base32Decode s = base32Bytes (map of_char s) 0 0"

text \<open>
  The key of the HMAC. otplib measures the key as hexadecimal text, two characters a
  byte, and a key of fewer than 20 such characters is repeated and cut to 20 bytes.
\<close>

definition totpPadSecret :: "nat list \<Rightarrow> nat list" where
  "totpPadSecret key =
     (if 2 * length key < 20 then take 20 (concat (replicate (20 - 2 * length key) key))
      else key)"

definition otplib :: crypto where
  "otplib =
     \<lparr>keyDecoder = base32Decode,
      createDigest = (\<lambda>key counter. hmacSha1 (totpPadSecret key) (be8 (nat counter)))\<rparr>"

section \<open>A concrete scenario\<close>

text \<open>
  One account \<open>u1\<close> whose profile holds a pending reset secret, the clock in the
  ten-minute window 2843062 (21 January 2024), and the two request bodies: the reset
  request, and the confirmation carrying the code of that window and a new password.
  \<open>laterEnv\<close> is 62 windows later, \<open>nextEnv\<close> is the window right after the first.
\<close>

definition demoSecret :: string where
  "demoSecret = ''JBSWY3DPEHPK3PXP''"

definition demoKey :: "nat list" where
  "demoKey = [72, 101, 108, 108, 111, 33, 222, 173, 190, 239]"

definition demoWorld :: world where
  "demoWorld =
     \<lparr>accounts = [\<lparr>uid = ''u1'', uemail = ''u1@example.com''\<rparr>],
      documents = [''u1'' \<mapsto> \<lparr>passwordResetSecret = Some demoSecret\<rparr>],
      passwords = [''u1'' \<mapsto> ''OldPass123''],
      outbox = []\<rparr>"

text \<open>
  A stored secret the engine cannot read: after eight base32 characters it holds the
  two bytes of an accented letter in UTF-8, and the same world with that secret.
\<close>

definition corruptedSecret :: string where
  "corruptedSecret = ''JBSWY3DP'' @ [CHR 0xC3, CHR 0xA9]"

definition corruptedWorld :: world where
  "corruptedWorld =
     demoWorld\<lparr>documents := [''u1'' \<mapsto> \<lparr>passwordResetSecret = Some corruptedSecret\<rparr>]\<rparr>"

definition demoEnv :: env where
  "demoEnv =
     \<lparr>now = 1705837200000,
      freshSecret = ''GEZDGNBVGY3TQOJQ'',
      usersListFails = False,
      listDocumentsFails = False,
      updateDocumentFails = False,
      updatePasswordFails = False,
      sendMailFails = False\<rparr>"

definition nextEnv :: env where
  "nextEnv = demoEnv\<lparr>now := 1705837800000\<rparr>"

definition laterEnv :: env where
  "laterEnv = demoEnv\<lparr>now := 1705874400000\<rparr>"

definition sendRequest :: body where
  "sendRequest =
     Parses (JsonObject \<lparr>email = JStr ''u1@example.com'', otp = JUndefined,
       newPassword = JUndefined\<rparr>)"

definition verifyRequest :: "string \<Rightarrow> body" where
  "verifyRequest code =
     Parses (JsonObject \<lparr>email = JStr ''u1@example.com'', otp = JStr code,
       newPassword = JStr ''NewPass123''\<rparr>)"

section \<open>The engine evaluated in the scenario\<close>

text \<open>
  The secret decodes to ten key bytes. Each SHA-1 compression is evaluated on its
  own: the two key blocks of the HMAC, then for each of the three windows the block
  holding the counter and the block holding the inner hash.
\<close>

lemma keyDecoder_demo: "keyDecoder otplib demoSecret = Some demoKey"
  by (simp add: otplib_def base32Decode_def base32Digit_def demoSecret_def demoKey_def)

lemma compress_ipad:
  "compress sha1_init
     [126, 83, 90, 90, 89, 23, 232, 155, 136, 217, 54, 54, 54, 54, 54, 54,
     54, 54, 54, 54, 54, 54, 54, 54, 54, 54, 54, 54, 54, 54, 54, 54, 54,
     54, 54, 54, 54, 54, 54, 54, 54, 54, 54, 54, 54, 54, 54, 54, 54, 54,
     54, 54, 54, 54, 54, 54, 54, 54, 54, 54, 54, 54, 54, 54] =
   (3715725260, 1380640354, 3878100862, 144215461, 2792695825)"
  by code_simp

lemma compress_opad:
  "compress sha1_init
     [20, 57, 48, 48, 51, 125, 130, 241, 226, 179, 92, 92, 92, 92, 92, 92,
     92, 92, 92, 92, 92, 92, 92, 92, 92, 92, 92, 92, 92, 92, 92, 92, 92,
     92, 92, 92, 92, 92, 92, 92, 92, 92, 92, 92, 92, 92, 92, 92, 92, 92,
     92, 92, 92, 92, 92, 92, 92, 92, 92, 92, 92, 92, 92, 92] =
   (2634400316, 2437370271, 3036113104, 1192652808, 2427902477)"
  by code_simp

lemma compress_inner_first:
  "compress (3715725260, 1380640354, 3878100862, 144215461, 2792695825)
     [0, 0, 0, 0, 0, 43, 97, 182, 128, 0, 0, 0, 0, 0, 0, 0, 0, 0, 0, 0, 0,
     0, 0, 0, 0, 0, 0, 0, 0, 0, 0, 0, 0, 0, 0, 0, 0, 0, 0, 0, 0, 0, 0, 0,
     0, 0, 0, 0, 0, 0, 0, 0, 0, 0, 0, 0, 0, 0, 0, 0, 0, 0, 2, 64] =
   (3734392353, 501648918, 2397073513, 3170245055, 3835582901)"
  by code_simp

lemma compress_outer_first:
  "compress (2634400316, 2437370271, 3036113104, 1192652808, 2427902477)
     [222, 150, 78, 33, 29, 230, 142, 22, 142, 224, 112, 105, 188, 246, 25,
     191, 228, 158, 89, 181, 128, 0, 0, 0, 0, 0, 0, 0, 0, 0, 0, 0, 0, 0, 0,
     0, 0, 0, 0, 0, 0, 0, 0, 0, 0, 0, 0, 0, 0, 0, 0, 0, 0, 0, 0, 0, 0, 0,
     0, 0, 0, 0, 2, 160] =
   (1327538311, 346024466, 2055235799, 1661133764, 1354725632)"
  by code_simp

lemma sha1_inner_first:
  "sha1
     [126, 83, 90, 90, 89, 23, 232, 155, 136, 217, 54, 54, 54, 54, 54, 54,
     54, 54, 54, 54, 54, 54, 54, 54, 54, 54, 54, 54, 54, 54, 54, 54, 54,
     54, 54, 54, 54, 54, 54, 54, 54, 54, 54, 54, 54, 54, 54, 54, 54, 54,
     54, 54, 54, 54, 54, 54, 54, 54, 54, 54, 54, 54, 54, 54, 0, 0, 0, 0, 0,
     43, 97, 182] =
   [222, 150, 78, 33, 29, 230, 142, 22, 142, 224, 112, 105, 188, 246, 25,
    191, 228, 158, 89, 181]"
  by (simp add: sha1_def sha1_pad_def zeros.simps be8_def be4_def blocks.simps compress_ipad compress_inner_first)

lemma sha1_outer_first:
  "sha1
     [20, 57, 48, 48, 51, 125, 130, 241, 226, 179, 92, 92, 92, 92, 92, 92,
     92, 92, 92, 92, 92, 92, 92, 92, 92, 92, 92, 92, 92, 92, 92, 92, 92,
     92, 92, 92, 92, 92, 92, 92, 92, 92, 92, 92, 92, 92, 92, 92, 92, 92,
     92, 92, 92, 92, 92, 92, 92, 92, 92, 92, 92, 92, 92, 92, 222, 150, 78,
     33, 29, 230, 142, 22, 142, 224, 112, 105, 188, 246, 25, 191, 228, 158,
     89, 181] =
   [79, 32, 160, 135, 20, 159, 234, 18, 122, 128, 104, 215, 99, 2, 227,
    196, 80, 191, 121, 0]"
  by (simp add: sha1_def sha1_pad_def zeros.simps be8_def be4_def blocks.simps compress_opad compress_outer_first)

lemma hmacSha1_first:
  "hmacSha1 [72, 101, 108, 108, 111, 33, 222, 173, 190, 239] [0, 0, 0, 0, 0, 43, 97, 182] =
   [79, 32, 160, 135, 20, 159, 234, 18, 122, 128, 104, 215, 99, 2, 227,
    196, 80, 191, 121, 0]"
  by (simp add: hmacSha1_def zeros.simps sha1_inner_first sha1_outer_first)

lemma createDigest_first:
  "createDigest otplib demoKey 2843062 =
   [79, 32, 160, 135, 20, 159, 234, 18, 122, 128, 104, 215, 99, 2, 227,
    196, 80, 191, 121, 0]"
  by (simp add: otplib_def demoKey_def totpPadSecret_def be8_def be4_def hmacSha1_first)

lemma totpToken_first:
  "totpToken otplib authenticator_options demoKey 1705837200000 = ''538311''"
proof -
  have "decimal 538311 = ''538311''"
    by (simp add: decimal.simps)
  then show ?thesis
    unfolding totpToken_def hotpDigestToToken_def Let_def
    by (simp add: totpCounter_def authenticator_options_def OTP_STEP_SECONDS_def
        OTP_EXPIRY_MINUTES_def createDigest_first byteAt_def padStart_def)
qed

lemma compress_inner_next:
  "compress (3715725260, 1380640354, 3878100862, 144215461, 2792695825)
     [0, 0, 0, 0, 0, 43, 97, 183, 128, 0, 0, 0, 0, 0, 0, 0, 0, 0, 0, 0, 0,
     0, 0, 0, 0, 0, 0, 0, 0, 0, 0, 0, 0, 0, 0, 0, 0, 0, 0, 0, 0, 0, 0, 0,
     0, 0, 0, 0, 0, 0, 0, 0, 0, 0, 0, 0, 0, 0, 0, 0, 0, 0, 2, 64] =
   (3194506074, 2112662902, 1420788580, 1576280762, 4099103063)"
  by code_simp

lemma compress_outer_next:
  "compress (2634400316, 2437370271, 3036113104, 1192652808, 2427902477)
     [190, 104, 75, 90, 125, 236, 173, 118, 84, 175, 131, 100, 93, 244, 34,
     186, 244, 83, 89, 87, 128, 0, 0, 0, 0, 0, 0, 0, 0, 0, 0, 0, 0, 0, 0,
     0, 0, 0, 0, 0, 0, 0, 0, 0, 0, 0, 0, 0, 0, 0, 0, 0, 0, 0, 0, 0, 0, 0,
     0, 0, 0, 0, 2, 160] =
   (1779687838, 1590982517, 1103828023, 2244715179, 2949847931)"
  by code_simp

lemma sha1_inner_next:
  "sha1
     [126, 83, 90, 90, 89, 23, 232, 155, 136, 217, 54, 54, 54, 54, 54, 54,
     54, 54, 54, 54, 54, 54, 54, 54, 54, 54, 54, 54, 54, 54, 54, 54, 54,
     54, 54, 54, 54, 54, 54, 54, 54, 54, 54, 54, 54, 54, 54, 54, 54, 54,
     54, 54, 54, 54, 54, 54, 54, 54, 54, 54, 54, 54, 54, 54, 0, 0, 0, 0, 0,
     43, 97, 183] =
   [190, 104, 75, 90, 125, 236, 173, 118, 84, 175, 131, 100, 93, 244, 34,
    186, 244, 83, 89, 87]"
  by (simp add: sha1_def sha1_pad_def zeros.simps be8_def be4_def blocks.simps compress_ipad compress_inner_next)

lemma sha1_outer_next:
  "sha1
     [20, 57, 48, 48, 51, 125, 130, 241, 226, 179, 92, 92, 92, 92, 92, 92,
     92, 92, 92, 92, 92, 92, 92, 92, 92, 92, 92, 92, 92, 92, 92, 92, 92,
     92, 92, 92, 92, 92, 92, 92, 92, 92, 92, 92, 92, 92, 92, 92, 92, 92,
     92, 92, 92, 92, 92, 92, 92, 92, 92, 92, 92, 92, 92, 92, 190, 104, 75,
     90, 125, 236, 173, 118, 84, 175, 131, 100, 93, 244, 34, 186, 244, 83,
     89, 87] =
   [106, 19, 225, 158, 94, 212, 119, 117, 65, 203, 20, 55, 133, 203, 162,
    171, 175, 211, 27, 123]"
  by (simp add: sha1_def sha1_pad_def zeros.simps be8_def be4_def blocks.simps compress_opad compress_outer_next)

lemma hmacSha1_next:
  "hmacSha1 [72, 101, 108, 108, 111, 33, 222, 173, 190, 239] [0, 0, 0, 0, 0, 43, 97, 183] =
   [106, 19, 225, 158, 94, 212, 119, 117, 65, 203, 20, 55, 133, 203, 162,
    171, 175, 211, 27, 123]"
  by (simp add: hmacSha1_def zeros.simps sha1_inner_next sha1_outer_next)

lemma createDigest_next:
  "createDigest otplib demoKey 2843063 =
   [106, 19, 225, 158, 94, 212, 119, 117, 65, 203, 20, 55, 133, 203, 162,
    171, 175, 211, 27, 123]"
  by (simp add: otplib_def demoKey_def totpPadSecret_def be8_def be4_def hmacSha1_next)

lemma totpToken_next:
  "totpToken otplib authenticator_options demoKey 1705837800000 = ''515298''"
proof -
  have "decimal 515298 = ''515298''"
    by (simp add: decimal.simps)
  then show ?thesis
    unfolding totpToken_def hotpDigestToToken_def Let_def
    by (simp add: totpCounter_def authenticator_options_def OTP_STEP_SECONDS_def
        OTP_EXPIRY_MINUTES_def createDigest_next byteAt_def padStart_def)
qed

lemma compress_inner_later:
  "compress (3715725260, 1380640354, 3878100862, 144215461, 2792695825)
     [0, 0, 0, 0, 0, 43, 97, 244, 128, 0, 0, 0, 0, 0, 0, 0, 0, 0, 0, 0, 0,
     0, 0, 0, 0, 0, 0, 0, 0, 0, 0, 0, 0, 0, 0, 0, 0, 0, 0, 0, 0, 0, 0, 0,
     0, 0, 0, 0, 0, 0, 0, 0, 0, 0, 0, 0, 0, 0, 0, 0, 0, 0, 2, 64] =
   (3232248600, 2132783210, 359979927, 607817, 1103636666)"
  by code_simp

lemma compress_outer_later:
  "compress (2634400316, 2437370271, 3036113104, 1192652808, 2427902477)
     [192, 168, 51, 24, 127, 31, 176, 106, 21, 116, 219, 151, 0, 9, 70, 73,
     65, 200, 40, 186, 128, 0, 0, 0, 0, 0, 0, 0, 0, 0, 0, 0, 0, 0, 0, 0, 0,
     0, 0, 0, 0, 0, 0, 0, 0, 0, 0, 0, 0, 0, 0, 0, 0, 0, 0, 0, 0, 0, 0, 0,
     0, 0, 2, 160] =
   (3112216531, 2746565200, 126313356, 3885299151, 3314769285)"
  by code_simp

lemma sha1_inner_later:
  "sha1
     [126, 83, 90, 90, 89, 23, 232, 155, 136, 217, 54, 54, 54, 54, 54, 54,
     54, 54, 54, 54, 54, 54, 54, 54, 54, 54, 54, 54, 54, 54, 54, 54, 54,
     54, 54, 54, 54, 54, 54, 54, 54, 54, 54, 54, 54, 54, 54, 54, 54, 54,
     54, 54, 54, 54, 54, 54, 54, 54, 54, 54, 54, 54, 54, 54, 0, 0, 0, 0, 0,
     43, 97, 244] =
   [192, 168, 51, 24, 127, 31, 176, 106, 21, 116, 219, 151, 0, 9, 70, 73,
    65, 200, 40, 186]"
  by (simp add: sha1_def sha1_pad_def zeros.simps be8_def be4_def blocks.simps compress_ipad compress_inner_later)

lemma sha1_outer_later:
  "sha1
     [20, 57, 48, 48, 51, 125, 130, 241, 226, 179, 92, 92, 92, 92, 92, 92,
     92, 92, 92, 92, 92, 92, 92, 92, 92, 92, 92, 92, 92, 92, 92, 92, 92,
     92, 92, 92, 92, 92, 92, 92, 92, 92, 92, 92, 92, 92, 92, 92, 92, 92,
     92, 92, 92, 92, 92, 92, 92, 92, 92, 92, 92, 92, 92, 92, 192, 168, 51,
     24, 127, 31, 176, 106, 21, 116, 219, 151, 0, 9, 70, 73, 65, 200, 40,
     186] =
   [185, 128, 167, 211, 163, 181, 66, 80, 7, 135, 99, 140, 231, 148, 245,
    207, 197, 147, 93, 133]"
  by (simp add: sha1_def sha1_pad_def zeros.simps be8_def be4_def blocks.simps compress_opad compress_outer_later)

lemma hmacSha1_later:
  "hmacSha1 [72, 101, 108, 108, 111, 33, 222, 173, 190, 239] [0, 0, 0, 0, 0, 43, 97, 244] =
   [185, 128, 167, 211, 163, 181, 66, 80, 7, 135, 99, 140, 231, 148, 245,
    207, 197, 147, 93, 133]"
  by (simp add: hmacSha1_def zeros.simps sha1_inner_later sha1_outer_later)

lemma createDigest_later:
  "createDigest otplib demoKey 2843124 =
   [185, 128, 167, 211, 163, 181, 66, 80, 7, 135, 99, 140, 231, 148, 245,
    207, 197, 147, 93, 133]"
  by (simp add: otplib_def demoKey_def totpPadSecret_def be8_def be4_def hmacSha1_later)

lemma totpToken_later:
  "totpToken otplib authenticator_options demoKey 1705874400000 = ''538311''"
proof -
  have "decimal 538311 = ''538311''"
    by (simp add: decimal.simps)
  then show ?thesis
    unfolding totpToken_def hotpDigestToToken_def Let_def
    by (simp add: totpCounter_def authenticator_options_def OTP_STEP_SECONDS_def
        OTP_EXPIRY_MINUTES_def createDigest_later byteAt_def padStart_def)
qed

section \<open>Properties of the engine and of the handlers\<close>

lemma isDigit_nth: "k < 10 \<Longrightarrow> isDigit (''0123456789'' ! k)"
  by (auto simp: isDigit_def eval_nat_numeral less_Suc_eq)

lemma isDigit_digitChar: "isDigit (digitChar n)"
  by (simp add: isDigit_nth)

lemma decimal_digits: "list_all isDigit (decimal n)"
proof (induction n rule: decimal.induct)
  case (1 n)
  show ?case
  proof (cases "n < 10")
    case True
    then show ?thesis
      using isDigit_digitChar [of n] by (simp add: decimal.simps [of n] del: digitChar.simps)
  next
    case False
    with "1" show ?thesis
      using isDigit_digitChar [of n] by (simp add: decimal.simps [of n] del: digitChar.simps)
  qed
qed
lemma decimal_length: "n < 10 ^ k \<Longrightarrow> 0 < k \<Longrightarrow> length (decimal n) \<le> k"
proof (induction n arbitrary: k rule: decimal.induct)
  case (1 n)
  show ?case
  proof (cases "n < 10")
    case True
    with "1.prems" show ?thesis by (simp add: decimal.simps [of n] Suc_leI)
  next
    case False
    from "1.prems" obtain j where k: "k = Suc j" by (cases k) auto
    from False "1.prems" k have j: "0 < j" by (cases j) auto
    from "1.prems" k have "n < 10 * 10 ^ j" by simp
    then have "n div 10 < 10 ^ j" by (simp add: less_mult_imp_div_less mult.commute)
    with "1.IH" [OF False _ j] have "length (decimal (n div 10)) \<le> j" by simp
    with False k show ?thesis by (simp add: decimal.simps [of n])
  qed
qed

lemma digits_replicate: "list_all isDigit (replicate k (CHR ''0''))"
  by (induction k) (simp_all add: isDigit_def)
lemma hotpDigestToToken_form:
  "\<exists>x. hotpDigestToToken d n = padStart (decimal (x mod 10 ^ n)) n (CHR ''0'')"
  unfolding hotpDigestToToken_def Let_def by (rule exI) (rule refl)

lemma length_hotpDigestToToken: "0 < n \<Longrightarrow> length (hotpDigestToToken d n) = n"
proof -
  assume n: "0 < n"
  obtain x where x: "hotpDigestToToken d n = padStart (decimal (x mod 10 ^ n)) n (CHR ''0'')"
    using hotpDigestToToken_form by blast
  have "length (decimal (x mod 10 ^ n)) \<le> n"
    by (rule decimal_length) (use n in simp_all)
  then show ?thesis by (simp add: x padStart_def)
qed

lemma digits_hotpDigestToToken: "list_all isDigit (hotpDigestToToken d n)"
proof -
  obtain x where x: "hotpDigestToToken d n = padStart (decimal (x mod 10 ^ n)) n (CHR ''0'')"
    using hotpDigestToToken_form by blast
  show ?thesis by (simp add: x padStart_def decimal_digits digits_replicate)
qed

lemma otpRegex_totpToken: "otpRegex_test (totpToken cr authenticator_options key epoch)"
  by (simp add: otpRegex_test_def totpToken_def authenticator_options_def
      length_hotpDigestToToken digits_hotpDigestToToken)

lemma isTokenValid_totpToken: "isTokenValid (totpToken cr authenticator_options key epoch)"
  using otpRegex_totpToken [of cr key epoch]
  by (auto simp: isTokenValid_def otpRegex_test_def)

lemma totpCheckWithWindow_strict:
  "window opts = 0 \<Longrightarrow>
   totpCheckWithWindow cr opts token key epoch =
     (if totpCheck cr opts token key epoch then Some 0 else None)"
  by (simp add: totpCheckWithWindow_def totpEpochsInWindow_def Let_def)

lemma window_authenticator_options: "window authenticator_options = 0"
  by (simp add: authenticator_options_def)

lemma authenticator_verify_strict:
  "keyDecoder cr secret = Some key \<Longrightarrow>
   authenticator_verify cr authenticator_options token secret epoch =
     Inr (token = totpToken cr authenticator_options key epoch)"
  using isTokenValid_totpToken [of cr key epoch]
  by (auto simp: authenticator_verify_def totpCheck_def
      totpCheckWithWindow_strict [OF window_authenticator_options])

lemma totpToken_window:
  "totpCounter t (step opts) = totpCounter t' (step opts) \<Longrightarrow>
   totpToken cr opts key t = totpToken cr opts key t'"
  by (simp add: totpToken_def)

lemma authenticator_verify_window:
  "totpCounter t (step authenticator_options) = totpCounter t' (step authenticator_options) \<Longrightarrow>
   authenticator_verify cr authenticator_options token secret t =
   authenticator_verify cr authenticator_options token secret t'"
proof (cases "keyDecoder cr secret")
  case None
  then show ?thesis by (simp add: authenticator_verify_def)
next
  case (Some key)
  assume "totpCounter t (step authenticator_options) = totpCounter t' (step authenticator_options)"
  then have "totpToken cr authenticator_options key t = totpToken cr authenticator_options key t'"
    by (rule totpToken_window)
  with Some show ?thesis by (simp add: authenticator_verify_strict)
qed
lemma verify_otp_reaches_check:
  assumes "b = Parses (JsonObject p)"
    and "truthy (email p)" and "truthy (otp p)" and "truthy (newPassword p)"
    and "otpRegex_test (str (otp p))" and "8 \<le> length (str (newPassword p))"
    and "users_list e w (str (email p)) = Inr (u # us)"
    and "database_listDocuments e w (uid u) = Inr ((i, d) # ds)"
    and "passwordResetSecret d = Some s" and "s \<noteq> []"
  shows "verify_otp cr e w b =
     (case authenticator_verify cr authenticator_options (str (otp p)) s (now e) of
        Inl _ \<Rightarrow>
          finish (failure ''Invalid OTP or OTP has expired'' 400) w
            [UsersList (str (email p)), ListDocuments (uid u)]
      | Inr isValid \<Rightarrow>
          if \<not> isValid then
            finish (failure ''Invalid OTP or OTP has expired. Please request a new OTP.'' 400) w
              [UsersList (str (email p)), ListDocuments (uid u)]
          else resetPassword e w [UsersList (str (email p)), ListDocuments (uid u)] (uid u) i
                 (str (newPassword p)))"
  using assms
  by (simp add: verify_otp_def JSON_parse_def destructure_def present_def Let_def)

lemma listDocuments_id:
  "database_listDocuments e w k = Inr ((i, d) # ds) \<Longrightarrow>
   i = k \<and> documents w k = Some d \<and> ds = [] \<and> \<not> listDocumentsFails e"
  by (auto simp: database_listDocuments_def split: if_splits option.splits)

lemma users_list_unchanged:
  "accounts w' = accounts w \<Longrightarrow> users_list e w' em = users_list e w em"
  by (simp add: users_list_def)

section \<open>The claims about the engine\<close>

text \<open>
  Claim C2. For every secret and every timestamp, the code derived from the secret
  at that time verifies against the same secret at the same time, under the options
  of both handlers (six digits, a step of 600 seconds, window 0). A secret is one the
  engine can decode; for it the engine does derive a code, of exactly six decimal
  digits, and verifying that code returns true. Timestamps are the milliseconds of
  \<^verbatim>\<open>Date.now()\<close>.
\<close>

theorem derived_code_verifies:
  assumes "keyDecoder cr S = Some key"
  shows "\<exists>c. authenticator_generate cr authenticator_options S T = Inr c \<and>
             otpRegex_test c \<and>
             authenticator_verify cr authenticator_options c S T = Inr True"
  using assms
  by (simp add: authenticator_generate_def authenticator_verify_strict otpRegex_totpToken)

theorem derived_code_verifies_witness:
  "authenticator_generate otplib authenticator_options demoSecret 1705837200000 = Inr ''538311'' \<and>
   otpRegex_test ''538311'' \<and>
   authenticator_verify otplib authenticator_options ''538311'' demoSecret 1705837200000 = Inr True"
proof -
  have "authenticator_generate otplib authenticator_options demoSecret 1705837200000 = Inr ''538311''"
    by (simp add: authenticator_generate_def keyDecoder_demo totpToken_first)
  with derived_code_verifies [OF keyDecoder_demo, of 1705837200000] show ?thesis
    by auto
qed

text \<open>
  Claim C3, as the code has it. The code derived from a secret at time \<open>T\<close> verifies
  against the secret at time \<open>T'\<close> exactly when it equals the code derived at \<open>T'\<close>:
  only the window that holds \<open>T'\<close> is tried, with no backward or forward drift. In
  the same window the two codes are equal. In different windows they usually differ,
  but a six-digit code can come again: the claim that a code of another window never
  verifies fails for the secret of the scenario, whose windows 2843062 and 2843124
  share the code 538311.
\<close>

theorem code_verifies_iff_same_code:
  assumes "authenticator_generate cr authenticator_options S T = Inr c"
    and "authenticator_generate cr authenticator_options S T' = Inr c'"
  shows "authenticator_verify cr authenticator_options c S T' = Inr (c = c') \<and>
         (totpCounter T OTP_STEP_SECONDS = totpCounter T' OTP_STEP_SECONDS \<longrightarrow> c = c')"
proof (cases "keyDecoder cr S")
  case None
  with assms(1) show ?thesis by (simp add: authenticator_generate_def)
next
  case (Some key)
  with assms have c: "c = totpToken cr authenticator_options key T"
    and c': "c' = totpToken cr authenticator_options key T'"
    by (simp_all add: authenticator_generate_def)
  have "totpCounter T OTP_STEP_SECONDS = totpCounter T' OTP_STEP_SECONDS \<Longrightarrow> c = c'"
    unfolding c c' by (rule totpToken_window) (simp add: authenticator_options_def)
  with Some c' show ?thesis by (simp add: authenticator_verify_strict)
qed

theorem code_verifies_iff_same_code_witness:
  "authenticator_verify otplib authenticator_options ''538311'' demoSecret 1705837800000 = Inr False \<and>
   authenticator_verify otplib authenticator_options ''538311'' demoSecret 1705837200001 = Inr True"
proof -
  have first: "authenticator_generate otplib authenticator_options demoSecret 1705837200000 = Inr ''538311''"
    by (simp add: authenticator_generate_def keyDecoder_demo totpToken_first)
  have "next": "authenticator_generate otplib authenticator_options demoSecret 1705837800000 = Inr ''515298''"
    by (simp add: authenticator_generate_def keyDecoder_demo totpToken_next)
  obtain c where same: "authenticator_generate otplib authenticator_options demoSecret 1705837200001 = Inr c"
    by (simp add: authenticator_generate_def keyDecoder_demo)
  have window: "totpCounter 1705837200000 OTP_STEP_SECONDS = totpCounter 1705837200001 OTP_STEP_SECONDS"
    by (simp add: totpCounter_def OTP_STEP_SECONDS_def OTP_EXPIRY_MINUTES_def)
  have other: "authenticator_verify otplib authenticator_options ''538311'' demoSecret 1705837800000 = Inr False"
    using code_verifies_iff_same_code [OF first "next"] by simp
  have "authenticator_verify otplib authenticator_options ''538311'' demoSecret 1705837200001 = Inr True"
    using code_verifies_iff_same_code [OF first same] window by auto
  with other show ?thesis by simp
qed

text \<open>
  The code of window 2843062 verifies in window 2843124, 62 windows later.
\<close>

theorem other_window_code_counterexample:
  "totpCounter 1705837200000 OTP_STEP_SECONDS \<noteq> totpCounter 1705874400000 OTP_STEP_SECONDS \<and>
   authenticator_generate otplib authenticator_options demoSecret 1705837200000 = Inr ''538311'' \<and>
   authenticator_verify otplib authenticator_options ''538311'' demoSecret 1705874400000 = Inr True"
  by (simp add: authenticator_generate_def authenticator_verify_strict [OF keyDecoder_demo]
      keyDecoder_demo totpToken_first totpToken_later totpCounter_def OTP_STEP_SECONDS_def
      OTP_EXPIRY_MINUTES_def)

section \<open>The scenario, evaluated\<close>

lemma demoSecret_not_empty: "demoSecret \<noteq> []"
  by (simp add: demoSecret_def)

lemma generate_demo:
  "authenticator_generate otplib authenticator_options demoSecret 1705837200000 = Inr ''538311''"
  by (simp add: authenticator_generate_def keyDecoder_demo totpToken_first)

lemma verify_demo:
  "authenticator_verify otplib authenticator_options c demoSecret 1705837200000 =
     Inr (c = ''538311'')"
  by (simp add: authenticator_verify_strict [OF keyDecoder_demo] totpToken_first)

lemma verify_later:
  "authenticator_verify otplib authenticator_options c demoSecret 1705874400000 =
     Inr (c = ''538311'')"
  by (simp add: authenticator_verify_strict [OF keyDecoder_demo] totpToken_later)

lemma keyDecoder_corrupted: "keyDecoder otplib corruptedSecret = None"
  by (simp add: otplib_def base32Decode_def base32Digit_def corruptedSecret_def)

lemma corruptedSecret_not_empty: "corruptedSecret \<noteq> []"
  by (simp add: corruptedSecret_def)

lemma verify_corrupted:
  "authenticator_verify otplib authenticator_options c corruptedSecret t = Inl DecodeError"
  by (simp add: authenticator_verify_def keyDecoder_corrupted)

lemma otpRegex_538311: "otpRegex_test ''538311''"
  by (simp add: otpRegex_test_def isDigit_def)

lemma emailRegex_demo: "emailRegex_test ''u1@example.com''"
  by (simp add: emailRegex_test_def plainChar_def isSpace_def)

lemma users_list_demo:
  "accounts w = accounts demoWorld \<Longrightarrow> \<not> usersListFails e \<Longrightarrow>
   users_list e w ''u1@example.com'' = Inr [\<lparr>uid = ''u1'', uemail = ''u1@example.com''\<rparr>]"
  by (simp add: users_list_def demoWorld_def)

lemma listDocuments_demo:
  "\<not> listDocumentsFails e \<Longrightarrow>
   database_listDocuments e demoWorld ''u1'' =
     Inr [(''u1'', \<lparr>passwordResetSecret = Some demoSecret\<rparr>)]"
  by (simp add: database_listDocuments_def demoWorld_def)

lemma listDocuments_corrupted:
  "\<not> listDocumentsFails e \<Longrightarrow>
   database_listDocuments e corruptedWorld ''u1'' =
     Inr [(''u1'', \<lparr>passwordResetSecret = Some corruptedSecret\<rparr>)]"
  by (simp add: database_listDocuments_def corruptedWorld_def demoWorld_def)

lemma accounts_corrupted: "accounts corruptedWorld = accounts demoWorld"
  by (simp add: corruptedWorld_def)

section \<open>The claims about the handlers\<close>

text \<open>
  Claim C1, as the code has it. When the supplied code matches, the external
  password update succeeds and the write that clears the secret succeeds too, the
  handler answers with success and the user's \<open>passwordResetSecret\<close> is \<^verbatim>\<open>null\<close>
  afterwards. No later verification request for that user then succeeds, whatever
  code and password it carries, at whatever time and with whatever faults; and every
  such request that passes the validation and whose two lookups answer gets the "no
  OTP request" answer with status 400. The write that clears the secret is best
  effort: when it fails the secret stays and the same code is accepted again in the
  same window, which is what the counterexample shows.
\<close>

theorem secret_cleared_after_verification:
  assumes "b = Parses (JsonObject p)"
    and "truthy (email p)" and "truthy (otp p)" and "truthy (newPassword p)"
    and "otpRegex_test (str (otp p))" and "8 \<le> length (str (newPassword p))"
    and "users_list e w (str (email p)) = Inr (u # us)"
    and "database_listDocuments e w (uid u) = Inr ((i, d) # ds)"
    and "passwordResetSecret d = Some s" and "s \<noteq> []"
    and "authenticator_verify cr authenticator_options (str (otp p)) s (now e) = Inr True"
    and "\<not> updatePasswordFails e" and "\<not> updateDocumentFails e"
    and "JSON_parse b' = Inr j'" and "destructure j' = Inr p'" and "email p' = email p"
  shows "resp (verify_otp cr e w b) = passwordReset \<and>
         documents (after (verify_otp cr e w b)) (uid u) = Some (d\<lparr>passwordResetSecret := None\<rparr>) \<and>
         \<not> success (resp (verify_otp cr e' (after (verify_otp cr e w b)) b')) \<and>
         (truthy (otp p') \<and> otpRegex_test (str (otp p')) \<and>
          truthy (newPassword p') \<and> 8 \<le> length (str (newPassword p')) \<and>
          \<not> usersListFails e' \<and> \<not> listDocumentsFails e' \<longrightarrow>
            resp (verify_otp cr e' (after (verify_otp cr e w b)) b') =
              failure ''No OTP request found. Please request a new OTP.'' 400)"
proof -
  let ?w1 = "w\<lparr>passwords := (passwords w)(uid u \<mapsto> str (newPassword p))\<rparr>"
  let ?w2 = "?w1\<lparr>documents := (documents w)(uid u \<mapsto> d\<lparr>passwordResetSecret := None\<rparr>)\<rparr>"
  let ?cs = "[UsersList (str (email p)), ListDocuments (uid u)]"
  from assms(8) have i: "i = uid u" and doc: "documents w (uid u) = Some d"
    using listDocuments_id by blast+
  have first: "verify_otp cr e w b =
      finish passwordReset ?w2
        (?cs @ [UpdatePassword (uid u) (str (newPassword p)), UpdateDocument (uid u) None])"
    using assms(11-13) i doc
    by (simp add: verify_otp_reaches_check [OF assms(1-10)] resetPassword_def
        users_updatePassword_def database_updateDocument_def)
  from assms(7) have found: "filter (\<lambda>x. uemail x = str (email p)) (accounts w) = u # us"
    by (simp add: users_list_def split: if_splits)
  have second: "verify_otp cr e' ?w2 b' =
      (if \<not> truthy (otp p') \<or> \<not> truthy (newPassword p') then
         finish (failure ''Email, OTP, and new password are required'' 400) ?w2 []
       else if \<not> otpRegex_test (str (otp p')) then
         finish (failure ''Invalid OTP format. OTP must be 6 digits.'' 400) ?w2 []
       else if length (str (newPassword p')) < 8 then
         finish (failure ''Password must be at least 8 characters long'' 400) ?w2 []
       else if usersListFails e' then
         finish (failure ''Error verifying email address'' 500) ?w2 [UsersList (str (email p))]
       else if listDocumentsFails e' then
         finish (failure ''Error accessing user profile'' 500) ?w2 ?cs
       else finish (failure ''No OTP request found. Please request a new OTP.'' 400) ?w2 ?cs)"
    using assms(2) assms(14-16) found
    by (simp add: verify_otp_def users_list_def database_listDocuments_def present_def
        Let_def)
  show ?thesis
    by (simp add: first second finish_def passwordReset_def failure_def)
qed

theorem secret_cleared_after_verification_witness:
  "resp (verify_otp otplib demoEnv demoWorld (verifyRequest ''538311'')) = passwordReset \<and>
   documents (after (verify_otp otplib demoEnv demoWorld (verifyRequest ''538311''))) ''u1'' =
     Some \<lparr>passwordResetSecret = None\<rparr> \<and>
   resp (verify_otp otplib nextEnv
     (after (verify_otp otplib demoEnv demoWorld (verifyRequest ''538311'')))
     (Parses (JsonObject \<lparr>email = JStr ''u1@example.com'', otp = JStr ''515298'',
        newPassword = JStr ''Another456''\<rparr>))) =
     failure ''No OTP request found. Please request a new OTP.'' 400"
  using secret_cleared_after_verification
    [where b = "verifyRequest ''538311''"
       and p = "\<lparr>email = JStr ''u1@example.com'', otp = JStr ''538311'',
                 newPassword = JStr ''NewPass123''\<rparr>"
       and e = demoEnv and w = demoWorld and cr = otplib and e' = nextEnv
       and u = "\<lparr>uid = ''u1'', uemail = ''u1@example.com''\<rparr>" and us = "[]"
       and i = "''u1''" and d = "\<lparr>passwordResetSecret = Some demoSecret\<rparr>" and ds = "[]"
       and s = demoSecret
       and b' = "Parses (JsonObject \<lparr>email = JStr ''u1@example.com'', otp = JStr ''515298'',
                  newPassword = JStr ''Another456''\<rparr>)"
       and j' = "JsonObject \<lparr>email = JStr ''u1@example.com'', otp = JStr ''515298'',
                  newPassword = JStr ''Another456''\<rparr>"
       and p' = "\<lparr>email = JStr ''u1@example.com'', otp = JStr ''515298'',
                  newPassword = JStr ''Another456''\<rparr>"]
  by (simp add: verifyRequest_def otpRegex_538311 users_list_demo listDocuments_demo
      demoSecret_not_empty verify_demo demoEnv_def nextEnv_def JSON_parse_def
      destructure_def otpRegex_test_def isDigit_def)

text \<open>
  The claim without the condition on the clearing write fails: with that write
  failing, the first request succeeds, the secret is still stored, and the same
  request in the same window succeeds a second time. And with the secret cleared, a
  later request with the same code gets the "no OTP request" answer only if it
  reaches the check of the secret: with a new password that is too short it gets the
  weak-password answer, and with the user lookup failing it gets status 500.
\<close>

theorem secret_not_cleared_counterexample:
  "resp (verify_otp otplib (demoEnv\<lparr>updateDocumentFails := True\<rparr>) demoWorld
     (verifyRequest ''538311'')) = passwordReset \<and>
   documents (after (verify_otp otplib (demoEnv\<lparr>updateDocumentFails := True\<rparr>) demoWorld
     (verifyRequest ''538311''))) ''u1'' = Some \<lparr>passwordResetSecret = Some demoSecret\<rparr> \<and>
   resp (verify_otp otplib demoEnv
     (after (verify_otp otplib (demoEnv\<lparr>updateDocumentFails := True\<rparr>) demoWorld
        (verifyRequest ''538311'')))
     (verifyRequest ''538311'')) = passwordReset \<and>
   resp (verify_otp otplib demoEnv
     (after (verify_otp otplib demoEnv demoWorld (verifyRequest ''538311'')))
     (Parses (JsonObject \<lparr>email = JStr ''u1@example.com'', otp = JStr ''538311'',
        newPassword = JStr ''short1''\<rparr>))) =
     failure ''Password must be at least 8 characters long'' 400 \<and>
   resp (verify_otp otplib (demoEnv\<lparr>usersListFails := True\<rparr>)
     (after (verify_otp otplib demoEnv demoWorld (verifyRequest ''538311'')))
     (verifyRequest ''538311'')) =
     failure ''Error verifying email address'' 500"
  by (simp add: verify_otp_def resetPassword_def verifyRequest_def JSON_parse_def
      destructure_def otpRegex_538311 users_list_def database_listDocuments_def
      database_updateDocument_def users_updatePassword_def present_def demoSecret_not_empty
      verify_demo demoEnv_def demoWorld_def finish_def Let_def)

lemma deliver_frame:
  "documents (after (deliver cr e w cs em s)) = documents w \<and>
   accounts (after (deliver cr e w cs em s)) = accounts w \<and>
   (\<exists>rest. trace (deliver cr e w cs em s) = cs @ rest \<and>
      (\<forall>c \<in> set rest. \<exists>code. c = SendMail em code))"
  by (auto simp: deliver_def finish_def sendMail_def split: sum.splits)

lemma deliver_trace:
  "keyDecoder cr s = Some key \<Longrightarrow>
   trace (deliver cr e w cs em s) =
     cs @ [SendMail em (totpToken cr authenticator_options key (now e))]"
  by (simp add: deliver_def finish_def sendMail_def authenticator_generate_def)

lemma send_otp_existing_secret:
  assumes "JSON_parse b = Inr j" and "destructure j = Inr p"
    and "truthy (email p)" and "emailRegex_test (str (email p))"
    and "filter (\<lambda>x. uemail x = str (email p)) (accounts w) = u # us"
    and "documents w (uid u) = Some d"
    and "passwordResetSecret d = Some s" and "s \<noteq> []"
  shows "send_otp cr e w b =
     (if usersListFails e then
        finish (failure ''Error verifying email address'' 500) w [UsersList (str (email p))]
      else if listDocumentsFails e then
        finish (failure ''Error accessing user profile'' 500) w
          [UsersList (str (email p)), ListDocuments (uid u)]
      else deliver cr e w [UsersList (str (email p)), ListDocuments (uid u)] (str (email p)) s)"
  using assms
  by (simp add: send_otp_def users_list_def database_listDocuments_def present_def Let_def)

text \<open>
  Claim C4. For a user whose stored \<open>passwordResetSecret\<close> is present, the issuance
  handler never writes to the documents: after one run and after a second run the
  documents are as before, and neither run calls \<^verbatim>\<open>updateDocument\<close>, whatever faults
  the runs meet. When both runs fall in the same 600-second window, their lookups
  answer and the engine can decode the secret, both runs hand the same code to the
  mailer.
\<close>

theorem issuance_reuses_secret:
  assumes "JSON_parse b = Inr j" and "destructure j = Inr p"
    and "truthy (email p)" and "emailRegex_test (str (email p))"
    and "filter (\<lambda>x. uemail x = str (email p)) (accounts w) = u # us"
    and "documents w (uid u) = Some d"
    and "passwordResetSecret d = Some s" and "s \<noteq> []"
    and "totpCounter (now ea) OTP_STEP_SECONDS = totpCounter (now eb) OTP_STEP_SECONDS"
  shows "documents (after (send_otp cr ea w b)) = documents w \<and>
         documents (after (send_otp cr eb (after (send_otp cr ea w b)) b)) = documents w \<and>
         UpdateDocument i v \<notin> set (trace (send_otp cr ea w b)) \<and>
         UpdateDocument i v \<notin> set (trace (send_otp cr eb (after (send_otp cr ea w b)) b)) \<and>
         (\<not> usersListFails ea \<and> \<not> listDocumentsFails ea \<and>
          \<not> usersListFails eb \<and> \<not> listDocumentsFails eb \<and> keyDecoder cr s \<noteq> None \<longrightarrow>
            (\<exists>code.
               trace (send_otp cr ea w b) =
                 [UsersList (str (email p)), ListDocuments (uid u), SendMail (str (email p)) code] \<and>
               trace (send_otp cr eb (after (send_otp cr ea w b)) b) =
                 [UsersList (str (email p)), ListDocuments (uid u), SendMail (str (email p)) code]))"
proof -
  let ?cs = "[UsersList (str (email p)), ListDocuments (uid u)]"
  let ?w1 = "after (send_otp cr ea w b)"
  note first = send_otp_existing_secret [OF assms(1-8), of cr ea]
  have frame1: "documents ?w1 = documents w \<and> accounts ?w1 = accounts w"
    using deliver_frame [of cr ea w ?cs "str (email p)" s]
    by (simp add: first finish_def)
  have no_write_first: "UpdateDocument i v \<notin> set (trace (send_otp cr ea w b))"
    using deliver_frame [of cr ea w ?cs "str (email p)" s]
    by (auto simp: first finish_def)
  from frame1 assms(5, 6)
  have "filter (\<lambda>x. uemail x = str (email p)) (accounts ?w1) = u # us"
    and "documents ?w1 (uid u) = Some d"
    by simp_all
  note second = send_otp_existing_secret [OF assms(1-4) this assms(7, 8), of cr eb]
  have frame2: "documents (after (send_otp cr eb ?w1 b)) = documents w"
    using deliver_frame [of cr eb ?w1 ?cs "str (email p)" s] frame1
    by (simp add: second finish_def)
  have no_write_second: "UpdateDocument i v \<notin> set (trace (send_otp cr eb ?w1 b))"
    using deliver_frame [of cr eb ?w1 ?cs "str (email p)" s]
    by (auto simp: second finish_def)
  have same: "\<exists>code.
       trace (send_otp cr ea w b) = ?cs @ [SendMail (str (email p)) code] \<and>
       trace (send_otp cr eb ?w1 b) = ?cs @ [SendMail (str (email p)) code]"
    if ok: "\<not> usersListFails ea" "\<not> listDocumentsFails ea"
      "\<not> usersListFails eb" "\<not> listDocumentsFails eb"
      and key: "keyDecoder cr s = Some key" for key
  proof -
    from assms(9) have "totpToken cr authenticator_options key (now ea) =
        totpToken cr authenticator_options key (now eb)"
      by (intro totpToken_window) (simp add: authenticator_options_def)
    moreover from ok have "trace (send_otp cr ea w b) =
        ?cs @ [SendMail (str (email p)) (totpToken cr authenticator_options key (now ea))]"
      by (simp add: first deliver_trace [OF key])
    moreover from ok have "trace (send_otp cr eb ?w1 b) =
        ?cs @ [SendMail (str (email p)) (totpToken cr authenticator_options key (now eb))]"
      by (simp add: second deliver_trace [OF key])
    ultimately show ?thesis by simp
  qed
  from frame1 frame2 no_write_first no_write_second same show ?thesis
    by auto
qed

theorem issuance_reuses_secret_witness:
  "trace (send_otp otplib demoEnv demoWorld sendRequest) =
     [UsersList ''u1@example.com'', ListDocuments ''u1'', SendMail ''u1@example.com'' ''538311''] \<and>
   trace (send_otp otplib (demoEnv\<lparr>now := 1705837500000\<rparr>)
     (after (send_otp otplib demoEnv demoWorld sendRequest)) sendRequest) =
     [UsersList ''u1@example.com'', ListDocuments ''u1'', SendMail ''u1@example.com'' ''538311''] \<and>
   documents (after (send_otp otplib (demoEnv\<lparr>now := 1705837500000\<rparr>)
     (after (send_otp otplib demoEnv demoWorld sendRequest)) sendRequest)) = documents demoWorld"
proof -
  have first: "trace (send_otp otplib demoEnv demoWorld sendRequest) =
      [UsersList ''u1@example.com'', ListDocuments ''u1'', SendMail ''u1@example.com'' ''538311'']"
    by (simp add: send_otp_def sendRequest_def JSON_parse_def destructure_def emailRegex_demo
        users_list_def database_listDocuments_def present_def demoSecret_not_empty deliver_def
        sendMail_def generate_demo demoEnv_def demoWorld_def finish_def Let_def)
  let ?p = "\<lparr>email = JStr ''u1@example.com'', otp = JUndefined, newPassword = JUndefined\<rparr>"
  let ?u = "\<lparr>uid = ''u1'', uemail = ''u1@example.com''\<rparr>"
  let ?d = "\<lparr>passwordResetSecret = Some demoSecret\<rparr>"
  let ?later = "demoEnv\<lparr>now := 1705837500000\<rparr>"
  have parse: "JSON_parse sendRequest = Inr (JsonObject ?p)"
    by (simp add: JSON_parse_def sendRequest_def)
  have destr: "destructure (JsonObject ?p) = Inr ?p"
    by (simp add: destructure_def)
  have present: "truthy (email ?p)" and wellformed: "emailRegex_test (str (email ?p))"
    by (simp_all add: emailRegex_demo)
  have account: "filter (\<lambda>x. uemail x = str (email ?p)) (accounts demoWorld) = [?u]"
    by (simp add: demoWorld_def)
  have doc: "documents demoWorld (uid ?u) = Some ?d"
    by (simp add: demoWorld_def)
  have secret: "passwordResetSecret ?d = Some demoSecret"
    by simp
  have window: "totpCounter (now demoEnv) OTP_STEP_SECONDS = totpCounter (now ?later) OTP_STEP_SECONDS"
    by (simp add: demoEnv_def totpCounter_def OTP_STEP_SECONDS_def OTP_EXPIRY_MINUTES_def)
  have ok: "\<not> usersListFails demoEnv \<and> \<not> listDocumentsFails demoEnv \<and>
      \<not> usersListFails ?later \<and> \<not> listDocumentsFails ?later \<and>
      keyDecoder otplib demoSecret \<noteq> None"
    by (simp add: demoEnv_def keyDecoder_demo)
  from issuance_reuses_secret
    [OF parse destr present wellformed account doc secret demoSecret_not_empty window,
      where cr = otplib and i = "''u1''" and v = None]
    ok first
  show ?thesis
    by auto
qed

text \<open>
  Claim C5. When the code matches and the external password update fails, the
  handler answers with the failure of status 500 and leaves the world as it was: the
  stored secret after the request is the one before it, and no write to the document
  was attempted. A retry with the same body in the same window, whose lookups and
  password update succeed, is accepted.
\<close>

theorem failed_update_keeps_secret:
  assumes "b = Parses (JsonObject p)"
    and "truthy (email p)" and "truthy (otp p)" and "truthy (newPassword p)"
    and "otpRegex_test (str (otp p))" and "8 \<le> length (str (newPassword p))"
    and "users_list e w (str (email p)) = Inr (u # us)"
    and "database_listDocuments e w (uid u) = Inr ((i, d) # ds)"
    and "passwordResetSecret d = Some s" and "s \<noteq> []"
    and "authenticator_verify cr authenticator_options (str (otp p)) s (now e) = Inr True"
    and "updatePasswordFails e"
  shows "resp (verify_otp cr e w b) = failure ''Failed to update password. Please try again.'' 500 \<and>
         after (verify_otp cr e w b) = w \<and>
         trace (verify_otp cr e w b) =
           [UsersList (str (email p)), ListDocuments (uid u),
            UpdatePassword (uid u) (str (newPassword p))] \<and>
         (\<not> usersListFails e' \<and> \<not> listDocumentsFails e' \<and> \<not> updatePasswordFails e' \<and>
          totpCounter (now e') OTP_STEP_SECONDS = totpCounter (now e) OTP_STEP_SECONDS \<longrightarrow>
            resp (verify_otp cr e' (after (verify_otp cr e w b)) b) = passwordReset)"
proof -
  have first: "verify_otp cr e w b =
      finish (failure ''Failed to update password. Please try again.'' 500) w
        [UsersList (str (email p)), ListDocuments (uid u),
         UpdatePassword (uid u) (str (newPassword p))]"
    using assms(11, 12)
    by (simp add: verify_otp_reaches_check [OF assms(1-10)] resetPassword_def
        users_updatePassword_def)
  have retry: "resp (verify_otp cr e' w b) = passwordReset"
    if ok: "\<not> usersListFails e'" "\<not> listDocumentsFails e'" "\<not> updatePasswordFails e'"
      and same: "totpCounter (now e') OTP_STEP_SECONDS = totpCounter (now e) OTP_STEP_SECONDS"
  proof -
    from assms(7) ok(1) have users: "users_list e' w (str (email p)) = Inr (u # us)"
      by (simp add: users_list_def split: if_splits)
    from assms(8) ok(2) have docs: "database_listDocuments e' w (uid u) = Inr ((i, d) # ds)"
      by (simp add: database_listDocuments_def split: if_splits)
    from same have "authenticator_verify cr authenticator_options (str (otp p)) s (now e') =
        authenticator_verify cr authenticator_options (str (otp p)) s (now e)"
      by (intro authenticator_verify_window) (simp add: authenticator_options_def)
    with assms(11) ok(3) show ?thesis
      by (simp add: verify_otp_reaches_check [OF assms(1-6) users docs assms(9, 10)]
          resetPassword_def users_updatePassword_def finish_def split: sum.splits)
  qed
  show ?thesis
    using retry by (simp add: first finish_def)
qed

theorem failed_update_keeps_secret_witness:
  "resp (verify_otp otplib (demoEnv\<lparr>updatePasswordFails := True\<rparr>) demoWorld
     (verifyRequest ''538311'')) =
     failure ''Failed to update password. Please try again.'' 500 \<and>
   after (verify_otp otplib (demoEnv\<lparr>updatePasswordFails := True\<rparr>) demoWorld
     (verifyRequest ''538311'')) = demoWorld \<and>
   resp (verify_otp otplib (demoEnv\<lparr>now := 1705837500000\<rparr>)
     (after (verify_otp otplib (demoEnv\<lparr>updatePasswordFails := True\<rparr>) demoWorld
        (verifyRequest ''538311'')))
     (verifyRequest ''538311'')) = passwordReset"
  using failed_update_keeps_secret
    [where b = "verifyRequest ''538311''"
       and p = "\<lparr>email = JStr ''u1@example.com'', otp = JStr ''538311'',
                 newPassword = JStr ''NewPass123''\<rparr>"
       and e = "demoEnv\<lparr>updatePasswordFails := True\<rparr>" and w = demoWorld and cr = otplib
       and e' = "demoEnv\<lparr>now := 1705837500000\<rparr>"
       and u = "\<lparr>uid = ''u1'', uemail = ''u1@example.com''\<rparr>" and us = "[]"
       and i = "''u1''" and d = "\<lparr>passwordResetSecret = Some demoSecret\<rparr>" and ds = "[]"
       and s = demoSecret]
  by (auto simp: verifyRequest_def otpRegex_538311 users_list_demo listDocuments_demo
      demoSecret_not_empty verify_demo demoEnv_def totpCounter_def OTP_STEP_SECONDS_def
      OTP_EXPIRY_MINUTES_def)

text \<open>
  Claim C6. When the code matches and the password update succeeds, the handler
  answers with success whether or not the write that clears the secret succeeds: a
  fault of that write is caught and only logged. The password is the new one
  afterwards, and where the write failed the documents are as before.
\<close>

theorem success_despite_failed_clear:
  assumes "b = Parses (JsonObject p)"
    and "truthy (email p)" and "truthy (otp p)" and "truthy (newPassword p)"
    and "otpRegex_test (str (otp p))" and "8 \<le> length (str (newPassword p))"
    and "users_list e w (str (email p)) = Inr (u # us)"
    and "database_listDocuments e w (uid u) = Inr ((i, d) # ds)"
    and "passwordResetSecret d = Some s" and "s \<noteq> []"
    and "authenticator_verify cr authenticator_options (str (otp p)) s (now e) = Inr True"
    and "\<not> updatePasswordFails e"
  shows "resp (verify_otp cr e w b) = passwordReset \<and>
         passwords (after (verify_otp cr e w b)) (uid u) = Some (str (newPassword p)) \<and>
         trace (verify_otp cr e w b) =
           [UsersList (str (email p)), ListDocuments (uid u),
            UpdatePassword (uid u) (str (newPassword p)), UpdateDocument i None] \<and>
         (updateDocumentFails e \<longrightarrow> documents (after (verify_otp cr e w b)) = documents w)"
  using assms(11, 12)
  by (simp add: verify_otp_reaches_check [OF assms(1-10)] resetPassword_def
      users_updatePassword_def database_updateDocument_def finish_def split: option.splits)

theorem success_despite_failed_clear_witness:
  "resp (verify_otp otplib (demoEnv\<lparr>updateDocumentFails := True\<rparr>) demoWorld
     (verifyRequest ''538311'')) = passwordReset \<and>
   passwords (after (verify_otp otplib (demoEnv\<lparr>updateDocumentFails := True\<rparr>) demoWorld
     (verifyRequest ''538311''))) ''u1'' = Some ''NewPass123'' \<and>
   documents (after (verify_otp otplib (demoEnv\<lparr>updateDocumentFails := True\<rparr>) demoWorld
     (verifyRequest ''538311''))) = documents demoWorld"
  using success_despite_failed_clear
    [where b = "verifyRequest ''538311''"
       and p = "\<lparr>email = JStr ''u1@example.com'', otp = JStr ''538311'',
                 newPassword = JStr ''NewPass123''\<rparr>"
       and e = "demoEnv\<lparr>updateDocumentFails := True\<rparr>" and w = demoWorld and cr = otplib
       and u = "\<lparr>uid = ''u1'', uemail = ''u1@example.com''\<rparr>" and us = "[]"
       and i = "''u1''" and d = "\<lparr>passwordResetSecret = Some demoSecret\<rparr>" and ds = "[]"
       and s = demoSecret]
  by (simp add: verifyRequest_def otpRegex_538311 users_list_demo listDocuments_demo
      demoSecret_not_empty verify_demo demoEnv_def)

text \<open>
  Claim C7. A code that does not match and a fault of the engine both end the
  request with a client error: success is false and the status is 400 in both, and
  nothing is written. Every other catch of the handler answers with status 500 and
  a message that names an error; the catch around the engine answers as the mismatch
  branch does, with status 400 and the message "Invalid OTP or OTP has expired".
  That is how the message of the mismatch branch begins, but the mismatch branch
  goes on with ". Please request a new OTP.": the two literals differ, so the two
  answers are not identical and a caller can tell the two cases apart by the
  message.
\<close>

theorem mismatch_and_fault_responses:
  assumes "b = Parses (JsonObject p)"
    and "truthy (email p)" and "truthy (otp p)" and "truthy (newPassword p)"
    and "otpRegex_test (str (otp p))" and "8 \<le> length (str (newPassword p))"
    and "users_list e w (str (email p)) = Inr (u # us)"
    and "database_listDocuments e w (uid u) = Inr ((i, d) # ds)"
    and "passwordResetSecret d = Some s" and "s \<noteq> []"
  shows "(authenticator_verify cr authenticator_options (str (otp p)) s (now e) = Inl err \<longrightarrow>
            verify_otp cr e w b =
              finish (failure ''Invalid OTP or OTP has expired'' 400) w
                [UsersList (str (email p)), ListDocuments (uid u)]) \<and>
         (authenticator_verify cr authenticator_options (str (otp p)) s (now e) = Inr False \<longrightarrow>
            verify_otp cr e w b =
              finish (failure (''Invalid OTP or OTP has expired'' @ ''. Please request a new OTP.'') 400) w
                [UsersList (str (email p)), ListDocuments (uid u)]) \<and>
         (authenticator_verify cr authenticator_options (str (otp p)) s (now e) \<noteq> Inr True \<longrightarrow>
            \<not> success (resp (verify_otp cr e w b)) \<and> status (resp (verify_otp cr e w b)) = 400 \<and>
            after (verify_otp cr e w b) = w)"
  by (simp add: verify_otp_reaches_check [OF assms] finish_def failure_def
      split: sum.splits)

theorem mismatch_and_fault_responses_witness:
  "verify_otp otplib demoEnv corruptedWorld (verifyRequest ''538311'') =
     finish (failure ''Invalid OTP or OTP has expired'' 400) corruptedWorld
       [UsersList ''u1@example.com'', ListDocuments ''u1''] \<and>
   verify_otp otplib demoEnv demoWorld (verifyRequest ''000000'') =
     finish (failure ''Invalid OTP or OTP has expired. Please request a new OTP.'' 400) demoWorld
       [UsersList ''u1@example.com'', ListDocuments ''u1'']"
proof -
  have fault: "verify_otp otplib demoEnv corruptedWorld (verifyRequest ''538311'') =
      finish (failure ''Invalid OTP or OTP has expired'' 400) corruptedWorld
        [UsersList ''u1@example.com'', ListDocuments ''u1'']"
    using mismatch_and_fault_responses
      [where b = "verifyRequest ''538311''"
         and p = "\<lparr>email = JStr ''u1@example.com'', otp = JStr ''538311'',
                   newPassword = JStr ''NewPass123''\<rparr>"
         and e = demoEnv and w = corruptedWorld and cr = otplib and err = DecodeError
         and u = "\<lparr>uid = ''u1'', uemail = ''u1@example.com''\<rparr>" and us = "[]"
         and i = "''u1''" and d = "\<lparr>passwordResetSecret = Some corruptedSecret\<rparr>"
         and ds = "[]" and s = corruptedSecret]
    by (auto simp: verifyRequest_def otpRegex_538311 users_list_demo accounts_corrupted
        listDocuments_corrupted corruptedSecret_not_empty verify_corrupted demoEnv_def)
  have mismatch: "verify_otp otplib demoEnv demoWorld (verifyRequest ''000000'') =
      finish (failure ''Invalid OTP or OTP has expired. Please request a new OTP.'' 400) demoWorld
        [UsersList ''u1@example.com'', ListDocuments ''u1'']"
    using mismatch_and_fault_responses
      [where b = "verifyRequest ''000000''"
         and p = "\<lparr>email = JStr ''u1@example.com'', otp = JStr ''000000'',
                   newPassword = JStr ''NewPass123''\<rparr>"
         and e = demoEnv and w = demoWorld and cr = otplib and err = DecodeError
         and u = "\<lparr>uid = ''u1'', uemail = ''u1@example.com''\<rparr>" and us = "[]"
         and i = "''u1''" and d = "\<lparr>passwordResetSecret = Some demoSecret\<rparr>" and ds = "[]"
         and s = demoSecret]
    by (auto simp: verifyRequest_def otpRegex_test_def isDigit_def users_list_demo
        listDocuments_demo demoSecret_not_empty verify_demo demoEnv_def finish_def)
  from fault mismatch show ?thesis by simp
qed

text \<open>
  The two answers in the scenario. A stored secret that holds a byte of 128 or more
  makes the engine's decoder throw, and the request gets the answer of the fault
  branch; a wrong code against the good secret is a mismatch; the two responses
  differ.
\<close>

theorem mismatch_and_fault_counterexample:
  "resp (verify_otp otplib demoEnv corruptedWorld (verifyRequest ''538311'')) =
     failure ''Invalid OTP or OTP has expired'' 400 \<and>
   resp (verify_otp otplib demoEnv demoWorld (verifyRequest ''000000'')) =
     failure ''Invalid OTP or OTP has expired. Please request a new OTP.'' 400 \<and>
   resp (verify_otp otplib demoEnv corruptedWorld (verifyRequest ''538311'')) \<noteq>
   resp (verify_otp otplib demoEnv demoWorld (verifyRequest ''000000''))"
  by (simp add: verify_otp_def verifyRequest_def JSON_parse_def destructure_def
      otpRegex_test_def isDigit_def users_list_def database_listDocuments_def present_def
      demoSecret_not_empty corruptedSecret_not_empty verify_demo verify_corrupted demoEnv_def
      demoWorld_def corruptedWorld_def finish_def failure_def Let_def)

text \<open>
  The validation of the verification handler on fields that are strings, absent or
  null. It comes before every external call and ends the request: a missing (absent,
  null or empty) email, code or new password gets the missing-field answer; with all
  three present, a code that is not exactly six decimal digits gets the bad-format
  answer; with a well-formed code, a new password of fewer than eight characters
  gets the weak-password answer, whatever the code is worth. Each of the three has
  status 400, makes no call (no user lookup, no read of the secret, no password
  update, no write) and leaves the world as it was.
\<close>

theorem validation_precedes_lookups:
  "(\<not> truthy (email p) \<or> \<not> truthy (otp p) \<or> \<not> truthy (newPassword p) \<longrightarrow>
      verify_otp cr e w (Parses (JsonObject p)) =
        finish (failure ''Email, OTP, and new password are required'' 400) w []) \<and>
   (truthy (email p) \<and> truthy (otp p) \<and> truthy (newPassword p) \<and>
    \<not> otpRegex_test (str (otp p)) \<longrightarrow>
      verify_otp cr e w (Parses (JsonObject p)) =
        finish (failure ''Invalid OTP format. OTP must be 6 digits.'' 400) w []) \<and>
   (truthy (email p) \<and> truthy (otp p) \<and> truthy (newPassword p) \<and>
    otpRegex_test (str (otp p)) \<and> length (str (newPassword p)) < 8 \<longrightarrow>
      verify_otp cr e w (Parses (JsonObject p)) =
        finish (failure ''Password must be at least 8 characters long'' 400) w []) \<and>
   (\<not> truthy (email p) \<or> \<not> truthy (otp p) \<or> \<not> truthy (newPassword p) \<or>
    \<not> otpRegex_test (str (otp p)) \<or> length (str (newPassword p)) < 8 \<longrightarrow>
      status (resp (verify_otp cr e w (Parses (JsonObject p)))) = 400 \<and>
      \<not> success (resp (verify_otp cr e w (Parses (JsonObject p)))) \<and>
      trace (verify_otp cr e w (Parses (JsonObject p))) = [] \<and>
      after (verify_otp cr e w (Parses (JsonObject p))) = w)"
  by (simp add: verify_otp_def JSON_parse_def destructure_def finish_def failure_def)

theorem validation_precedes_lookups_witness:
  "verify_otp otplib demoEnv demoWorld (verifyRequest ''12a456'') =
     finish (failure ''Invalid OTP format. OTP must be 6 digits.'' 400) demoWorld [] \<and>
   verify_otp otplib demoEnv demoWorld (verifyRequest ''12345'') =
     finish (failure ''Invalid OTP format. OTP must be 6 digits.'' 400) demoWorld [] \<and>
   verify_otp otplib demoEnv demoWorld
     (Parses (JsonObject \<lparr>email = JStr ''u1@example.com'', otp = JStr ''538311'',
        newPassword = JStr ''short1''\<rparr>)) =
     finish (failure ''Password must be at least 8 characters long'' 400) demoWorld [] \<and>
   verify_otp otplib demoEnv demoWorld
     (Parses (JsonObject \<lparr>email = JUndefined, otp = JStr ''538311'',
        newPassword = JStr ''NewPass123''\<rparr>)) =
     finish (failure ''Email, OTP, and new password are required'' 400) demoWorld []"
  using
    validation_precedes_lookups
      [of "\<lparr>email = JStr ''u1@example.com'', otp = JStr ''12a456'',
            newPassword = JStr ''NewPass123''\<rparr>" otplib demoEnv demoWorld]
    validation_precedes_lookups
      [of "\<lparr>email = JStr ''u1@example.com'', otp = JStr ''12345'',
            newPassword = JStr ''NewPass123''\<rparr>" otplib demoEnv demoWorld]
    validation_precedes_lookups
      [of "\<lparr>email = JStr ''u1@example.com'', otp = JStr ''538311'',
            newPassword = JStr ''short1''\<rparr>" otplib demoEnv demoWorld]
    validation_precedes_lookups
      [of "\<lparr>email = JUndefined, otp = JStr ''538311'',
            newPassword = JStr ''NewPass123''\<rparr>" otplib demoEnv demoWorld]
  by (simp add: verifyRequest_def otpRegex_test_def isDigit_def)

text \<open>
  On strings \<open>validateInput\<close> is the validation of \<open>verify_otp\<close>: its answer ends the
  request without a call, and without one the handler goes on to the user lookup.
\<close>

lemma widen_truthy: "truthyJ (widen v) = truthy v"
  by (cases v) simp_all

lemma widen_str: "truthy v \<Longrightarrow> toStringJ (widen v) = str v"
  by (cases v) simp_all

lemma widen_length: "truthy v \<Longrightarrow> lengthJ (widen v) = Some (length (str v))"
  by (cases v) simp_all

lemma validateInput_ends_request:
  "validateInput (widen (email p)) (widen (otp p)) (widen (newPassword p)) = Some r \<Longrightarrow>
   verify_otp cr e w (Parses (JsonObject p)) = finish r w []"
  by (auto simp: validateInput_def verify_otp_def JSON_parse_def destructure_def widen_truthy
      widen_str widen_length split: if_splits)

lemma validateInput_goes_on:
  "validateInput (widen (email p)) (widen (otp p)) (widen (newPassword p)) = None \<Longrightarrow>
   trace (verify_otp cr e w (Parses (JsonObject p))) \<noteq> []"
  by (auto simp: validateInput_def verify_otp_def JSON_parse_def destructure_def widen_truthy
      widen_str widen_length finish_def resetPassword_def Let_def
      split: if_splits sum.splits list.splits prod.splits)

text \<open>
  Claim C8. The claim has the validation end every request whose new password is
  shorter than eight characters, before any lookup. Line 55 compares
  \<^verbatim>\<open>newPassword.length\<close> with 8, and a value without a length, a number other than
  zero or \<^verbatim>\<open>true\<close>, is not below 8: with an email and a six-digit code, a request
  whose new password is such a value passes the validation, however short the
  password is, and the handler goes on to the user lookup.
\<close>

theorem password_without_length_passes_validation:
  assumes "truthyJ em" and "truthyJ ot" and "otpRegex_test (toStringJ ot)"
    and "truthyJ pw" and "lengthJ pw = None"
  shows "validateInput em ot pw = None"
  using assms by (simp add: validateInput_def)

theorem password_without_length_passes_validation_witness:
  "validateInput (VStr ''u1@example.com'') (VStr ''538311'') (VNum 1234) = None"
  using password_without_length_passes_validation
    [of "VStr ''u1@example.com''" "VStr ''538311''" "VNum 1234"]
  by (simp add: otpRegex_538311)

text \<open>
  Claim C9. An issuance request whose email has no account in the directory writes
  nothing: the world after it is the world before it, the only call it can have made
  is the user lookup, and the answer is a failure. The request that reaches the
  lookup, its email being present and well-formed, gets the not-found answer with
  status 404.
\<close>

theorem unknown_email_writes_nothing:
  assumes "JSON_parse b = Inr j" and "destructure j = Inr p"
    and "users_list e w (str (email p)) = Inr []"
  shows "after (send_otp cr e w b) = w \<and>
         \<not> success (resp (send_otp cr e w b)) \<and>
         set (trace (send_otp cr e w b)) \<subseteq> {UsersList (str (email p))} \<and>
         (truthy (email p) \<and> emailRegex_test (str (email p)) \<longrightarrow>
            send_otp cr e w b =
              finish (failure ''No account found with this email address'' 404) w
                [UsersList (str (email p))])"
  using assms
  by (simp add: send_otp_def finish_def failure_def)

theorem unknown_email_writes_nothing_witness:
  "send_otp otplib demoEnv demoWorld
     (Parses (JsonObject \<lparr>email = JStr ''nobody@example.com'', otp = JUndefined,
        newPassword = JUndefined\<rparr>)) =
     finish (failure ''No account found with this email address'' 404) demoWorld
       [UsersList ''nobody@example.com'']"
  using unknown_email_writes_nothing
    [where b = "Parses (JsonObject \<lparr>email = JStr ''nobody@example.com'', otp = JUndefined,
        newPassword = JUndefined\<rparr>)"
       and j = "JsonObject \<lparr>email = JStr ''nobody@example.com'', otp = JUndefined,
        newPassword = JUndefined\<rparr>"
       and p = "\<lparr>email = JStr ''nobody@example.com'', otp = JUndefined,
        newPassword = JUndefined\<rparr>"
       and e = demoEnv and w = demoWorld and cr = otplib]
  by (simp add: JSON_parse_def destructure_def users_list_def demoEnv_def demoWorld_def
      emailRegex_test_def plainChar_def isSpace_def)

text \<open>
  Claim C10. In both handlers an absent request body is read as the empty object
  and gets the missing-field answer with status 400; a body that is present but is
  not JSON throws inside the handler and gets the "unexpected error" answer with
  status 500. Neither makes an external call or changes the world.
\<close>

theorem absent_and_malformed_body:
  "verify_otp cr e w NoBody =
     finish (failure ''Email, OTP, and new password are required'' 400) w [] \<and>
   send_otp cr e w NoBody = finish (failure ''Email is required'' 400) w [] \<and>
   verify_otp cr e w Unparsable =
     finish (failure ''An unexpected error occurred. Please try again.'' 500) w [] \<and>
   send_otp cr e w Unparsable =
     finish (failure ''An unexpected error occurred. Please try again.'' 500) w []"
  by (simp add: verify_otp_def send_otp_def JSON_parse_def destructure_def emptyObject_def
      unexpected_def)

theorem absent_and_malformed_body_witness:
  "status (resp (verify_otp otplib demoEnv demoWorld NoBody)) = 400 \<and>
   status (resp (send_otp otplib demoEnv demoWorld NoBody)) = 400 \<and>
   status (resp (verify_otp otplib demoEnv demoWorld Unparsable)) = 500 \<and>
   status (resp (send_otp otplib demoEnv demoWorld Unparsable)) = 500 \<and>
   trace (verify_otp otplib demoEnv demoWorld Unparsable) = [] \<and>
   trace (send_otp otplib demoEnv demoWorld Unparsable) = [] \<and>
   after (verify_otp otplib demoEnv demoWorld Unparsable) = demoWorld \<and>
   after (send_otp otplib demoEnv demoWorld Unparsable) = demoWorld"
  using absent_and_malformed_body [of otplib demoEnv demoWorld]
  by (simp add: finish_def failure_def)

end
